theory Spec2Isabelle
  imports Main "HOL-Library.Sublist"
begin

section \<open>pack8s: the podman session handle (internal/pkg/podman/podman.go)\<close>

subsection \<open>Error values\<close>

text \<open>
  A Go \<open>error\<close> is modelled as \<open>'v error option\<close>, with \<open>None\<close> for \<open>nil\<close>.
  The constructors are the dynamic types that \<open>SprintError\<close> switches on, each holding
  a non-nil pointer as the RPC layer produces it and carrying the fields the package reads.
  \<open>EOF\<close> and \<open>ErrUnexpectedEOF\<close> are the two sentinels of package \<open>io\<close>, compared by
  identity. \<open>OtherError t s\<close> is any other error value: \<open>t\<close> is its dynamic type name
  (what \<open>%T\<close> prints) and \<open>s\<close> the text of its \<open>Error\<close> method. The type \<open>'v\<close>
  stands for Go values the package only passes on or formats with \<open>%v\<close>
  (\<open>[]PodContainerErrorData\<close>, the \<open>interface{}\<close> parameters of a varlink error, a
  container configuration); their declarations belong to the packages \<open>iopodman\<close> and
  \<open>varlink\<close>.
\<close>

datatype 'v error =
    ImageNotFound string
  | ContainerNotFound string
  | NoContainerRunning
  | PodNotFound string
  | PodContainerError string 'v
  | NoContainersInPod string
  | ErrorOccurred string
  | RuntimeError string
  | InvalidParameter string
  | MethodNotFound string
  | MethodNotImplemented string
  | InterfaceNotFound string
  | VarlinkError 'v
  | EOF
  | ErrUnexpectedEOF
  | OtherError string string

text \<open>
  The formatting the package leaves to other packages: the \<open>Error\<close> method of the
  generated error types and the default format \<open>%v\<close> of an opaque value.
\<close>

record 'v fmt =
  Error_method :: "'v error \<Rightarrow> string"
  fmt_v :: "'v \<Rightarrow> string"

definition sq :: string where
  "sq = [CHR 0x27]"

definition nl :: string where
  "nl = [CHR 0x0A]"

text \<open>\<open>%v\<close> and \<open>%T\<close> of an \<open>error\<close> interface value; both print \<open><nil>\<close> for \<open>nil\<close>.\<close>

fun v_error :: "'v fmt \<Rightarrow> 'v error option \<Rightarrow> string" where
  "v_error F None = ''<nil>''"
| "v_error F (Some EOF) = ''EOF''"
| "v_error F (Some ErrUnexpectedEOF) = ''unexpected EOF''"
| "v_error F (Some (OtherError t s)) = s"
| "v_error F (Some e) = Error_method F e"

fun T_error :: "'v error option \<Rightarrow> string" where
  "T_error None = ''<nil>''"
| "T_error (Some (ImageNotFound i)) = ''*iopodman.ImageNotFound''"
| "T_error (Some (ContainerNotFound i)) = ''*iopodman.ContainerNotFound''"
| "T_error (Some NoContainerRunning) = ''*iopodman.NoContainerRunning''"
| "T_error (Some (PodNotFound n)) = ''*iopodman.PodNotFound''"
| "T_error (Some (PodContainerError p es)) = ''*iopodman.PodContainerError''"
| "T_error (Some (NoContainersInPod n)) = ''*iopodman.NoContainersInPod''"
| "T_error (Some (ErrorOccurred r)) = ''*iopodman.ErrorOccurred''"
| "T_error (Some (RuntimeError r)) = ''*iopodman.RuntimeError''"
| "T_error (Some (InvalidParameter p)) = ''*varlink.InvalidParameter''"
| "T_error (Some (MethodNotFound m)) = ''*varlink.MethodNotFound''"
| "T_error (Some (MethodNotImplemented m)) = ''*varlink.MethodNotImplemented''"
| "T_error (Some (InterfaceNotFound i)) = ''*varlink.InterfaceNotFound''"
| "T_error (Some (VarlinkError ps)) = ''*varlink.Error''"
| "T_error (Some EOF) = ''*errors.errorString''"
| "T_error (Some ErrUnexpectedEOF) = ''*errors.errorString''"
| "T_error (Some (OtherError t s)) = t"

text \<open>\<open>fmt.Errorf\<close> with no \<open>%w\<close> verb: a fresh \<open>*errors.errorString\<close> holding the text.\<close>

definition Errorf :: "string \<Rightarrow> 'v error" where
  "Errorf s = OtherError ''*errors.errorString'' s"

text \<open>\<open>%d\<close> of a non-negative integer.\<close>

fun decimal :: "nat \<Rightarrow> string" where
  "decimal n =
     (if n < 10 then [char_of (48 + n)]
      else decimal (n div 10) @ [char_of (48 + n mod 10)])"

declare decimal.simps [simp del]

text \<open>\<open>%v\<close> of a \<open>bool\<close>.\<close>

definition v_bool :: "bool \<Rightarrow> string" where
  "v_bool b = (if b then ''true'' else ''false'')"

subsection \<open>SprintError\<close>

text \<open>
  The buffer starts with \<open>Error calling <methodname>: \<close>; the type switch appends one
  line. A pointer case binds \<open>e\<close> to the error itself, printed by \<open>%v\<close> through its
  \<open>Error\<close> method.
\<close>

fun SprintError_case :: "'v fmt \<Rightarrow> 'v error option \<Rightarrow> string" where
  "SprintError_case F (Some (ImageNotFound i)) =
     sq @ v_error F (Some (ImageNotFound i)) @ sq @ '' name='' @ sq @ i @ sq @ nl"
| "SprintError_case F (Some (ContainerNotFound i)) =
     sq @ v_error F (Some (ContainerNotFound i)) @ sq @ '' name='' @ sq @ i @ sq @ nl"
| "SprintError_case F (Some NoContainerRunning) =
     sq @ v_error F (Some NoContainerRunning) @ sq @ nl"
| "SprintError_case F (Some (PodNotFound n)) =
     sq @ v_error F (Some (PodNotFound n)) @ sq @ '' name='' @ sq @ n @ sq @ nl"
| "SprintError_case F (Some (PodContainerError p es)) =
     sq @ v_error F (Some (PodContainerError p es)) @ sq @ '' podname='' @ sq @ p @ sq
       @ '' errors='' @ sq @ fmt_v F es @ sq @ nl"
| "SprintError_case F (Some (NoContainersInPod n)) =
     sq @ v_error F (Some (NoContainersInPod n)) @ sq @ '' name='' @ sq @ n @ sq @ nl"
| "SprintError_case F (Some (ErrorOccurred r)) =
     sq @ v_error F (Some (ErrorOccurred r)) @ sq @ '' reason='' @ sq @ r @ sq @ nl"
| "SprintError_case F (Some (RuntimeError r)) =
     sq @ v_error F (Some (RuntimeError r)) @ sq @ '' reason='' @ sq @ r @ sq @ nl"
| "SprintError_case F (Some (InvalidParameter p)) =
     sq @ v_error F (Some (InvalidParameter p)) @ sq @ '' parameter='' @ sq @ p @ sq @ nl"
| "SprintError_case F (Some (MethodNotFound m)) =
     sq @ v_error F (Some (MethodNotFound m)) @ sq @ '' method='' @ sq @ m @ sq @ nl"
| "SprintError_case F (Some (MethodNotImplemented m)) =
     sq @ v_error F (Some (MethodNotImplemented m)) @ sq @ '' method='' @ sq @ m @ sq @ nl"
| "SprintError_case F (Some (InterfaceNotFound i)) =
     sq @ v_error F (Some (InterfaceNotFound i)) @ sq @ '' interface='' @ sq @ i @ sq @ nl"
| "SprintError_case F (Some (VarlinkError ps)) =
     sq @ v_error F (Some (VarlinkError ps)) @ sq @ '' parameters='' @ sq @ fmt_v F ps @ sq @ nl"
| "SprintError_case F err =
     (if err = Some EOF then ''Connection closed'' @ nl
      else if err = Some ErrUnexpectedEOF then ''Connection aborted'' @ nl
      else T_error err @ '' - '' @ sq @ v_error F err @ sq @ nl)"

definition SprintError :: "'v fmt \<Rightarrow> string \<Rightarrow> 'v error option \<Rightarrow> string" where
  "SprintError F methodname err =
     ''Error calling '' @ methodname @ '': '' @ SprintError_case F err"

subsection \<open>The handle, the engine and the process's effects\<close>

type_synonym 'v err = "'v error option"

type_synonym termios = nat

text \<open>
  \<open>conn\<close> is a pointer to a \<open>varlink.Connection\<close>: \<open>None\<close> is \<open>nil\<close>.
\<close>

record ('ctx, 'conn) Handle =
  ctx :: 'ctx
  conn :: "'conn option"

text \<open>
  The records of package \<open>iopodman\<close>, with the fields this package reads or writes.
\<close>

record Container =
  Id' :: string
  Names :: string

record Volume =
  Name :: string
  MountPoint :: string

record Sockets =
  Io_socket :: string

record ExecOpts =
  Name' :: string
  Tty :: bool
  Privileged :: bool
  Cmd :: "string list"

record VolumeRemoveOpts =
  Volumes :: "string list"
  Force :: bool

record VolumeCreateOpts =
  VolumeName :: string

text \<open>
  What the process owns and can close: the handle's connection, or an open file, named by
  its descriptor.
\<close>

datatype 'conn resource = Connection 'conn | File nat

text \<open>
  The effects of the package, in the order they happen: a log line, a sleep, a call that
  leaves the process (with the error it returned), putting a terminal into raw mode,
  restoring it, closing a resource.
\<close>

datatype ('conn, 'v) effect =
    Log string
  | SleepSeconds nat
  | Call string "string list" "'v err"
  | MadeRaw nat
  | Restored nat termios
  | Closed "'conn resource"

text \<open>
  The world: \<open>ext\<close> is everything outside the process (the engine, the file system, the
  streams), of a type the package knows nothing of; \<open>tty\<close> is the mode of the terminal
  behind each descriptor; \<open>out\<close> is the trace of effects.
\<close>

record ('conn, 'e, 'v) world =
  ext :: 'e
  tty :: "nat \<Rightarrow> termios"
  out :: "('conn, 'v) effect list"

text \<open>
  The environment: every function of another package that this one calls. Each call reads
  and changes \<open>ext\<close>. A call that returns a value and an error returns both, as in Go.
  \<open>MakeRaw fd m\<close> is asked with the current mode \<open>m\<close> of the terminal: \<open>Inr raw\<close> is the
  raw mode it installs, \<open>Inl e\<close> the error it fails with, the mode untouched.
\<close>

record ('ctx, 'conn, 'e, 'v) env =
  Fmt :: "'v fmt"
  NewConnection :: "'ctx \<Rightarrow> string \<Rightarrow> 'e \<Rightarrow> ('conn option \<times> 'v err) \<times> 'e"
  rpc_Attach :: "'ctx \<Rightarrow> 'conn option \<Rightarrow> string \<Rightarrow> string \<Rightarrow> bool \<Rightarrow> 'e \<Rightarrow> 'v err \<times> 'e"
  rpc_GetAttachSockets :: "'ctx \<Rightarrow> 'conn option \<Rightarrow> string \<Rightarrow> 'e \<Rightarrow> (Sockets \<times> 'v err) \<times> 'e"
  rpc_ExecContainer :: "'ctx \<Rightarrow> 'conn option \<Rightarrow> ExecOpts \<Rightarrow> 'e \<Rightarrow> 'v err \<times> 'e"
  rpc_ListContainers :: "'ctx \<Rightarrow> 'conn option \<Rightarrow> 'e \<Rightarrow> (Container list \<times> 'v err) \<times> 'e"
  rpc_GetVolumes :: "'ctx \<Rightarrow> 'conn option \<Rightarrow> string list \<Rightarrow> bool \<Rightarrow> 'e \<Rightarrow> (Volume list \<times> 'v err) \<times> 'e"
  rpc_VolumeRemove :: "'ctx \<Rightarrow> 'conn option \<Rightarrow> VolumeRemoveOpts \<Rightarrow> 'e \<Rightarrow> 'v err \<times> 'e"
  rpc_RemoveContainer :: "'ctx \<Rightarrow> 'conn option \<Rightarrow> string \<Rightarrow> bool \<Rightarrow> bool \<Rightarrow> 'e \<Rightarrow> (string \<times> 'v err) \<times> 'e"
  rpc_VolumeCreate :: "'ctx \<Rightarrow> 'conn option \<Rightarrow> VolumeCreateOpts \<Rightarrow> 'e \<Rightarrow> (string \<times> 'v err) \<times> 'e"
  rpc_CreateContainer :: "'ctx \<Rightarrow> 'conn option \<Rightarrow> 'v \<Rightarrow> 'e \<Rightarrow> (string \<times> 'v err) \<times> 'e"
  rpc_StopContainer :: "'ctx \<Rightarrow> 'conn option \<Rightarrow> string \<Rightarrow> int \<Rightarrow> 'e \<Rightarrow> (string \<times> 'v err) \<times> 'e"
  rpc_StartContainer :: "'ctx \<Rightarrow> 'conn option \<Rightarrow> string \<Rightarrow> 'e \<Rightarrow> (string \<times> 'v err) \<times> 'e"
  rpc_WaitContainer :: "'ctx \<Rightarrow> 'conn option \<Rightarrow> string \<Rightarrow> int \<Rightarrow> 'e \<Rightarrow> (int \<times> 'v err) \<times> 'e"
  rpc_PullImage :: "'ctx \<Rightarrow> 'conn option \<Rightarrow> string \<Rightarrow> 'e \<Rightarrow> (string \<times> 'v err) \<times> 'e"
  OpenFile :: "string \<Rightarrow> 'e \<Rightarrow> (nat \<times> 'v err) \<times> 'e"
  MakeRaw :: "nat \<Rightarrow> termios \<Rightarrow> 'v error + termios"
  IsTerminal :: "nat \<Rightarrow> bool"
  io_Copy :: "nat \<Rightarrow> nat \<Rightarrow> 'e \<Rightarrow> 'v err \<times> 'e"

definition emit :: "('conn, 'v) effect \<Rightarrow> ('conn, 'e, 'v) world \<Rightarrow> ('conn, 'e, 'v) world" where
  "emit ev w = w\<lparr>out := out w @ [ev]\<rparr>"

text \<open>A call whose only result is an error, and a call with a value and an error.\<close>

definition call0 ::
  "string \<Rightarrow> string list \<Rightarrow> ('e \<Rightarrow> 'v err \<times> 'e) \<Rightarrow> ('conn, 'e, 'v) world
     \<Rightarrow> 'v err \<times> ('conn, 'e, 'v) world" where
  "call0 m as f w =
     (let (err, x) = f (ext w) in (err, emit (Call m as err) (w\<lparr>ext := x\<rparr>)))"

definition call1 ::
  "string \<Rightarrow> string list \<Rightarrow> ('e \<Rightarrow> ('a \<times> 'v err) \<times> 'e) \<Rightarrow> ('conn, 'e, 'v) world
     \<Rightarrow> ('a \<times> 'v err) \<times> ('conn, 'e, 'v) world" where
  "call1 m as f w =
     (let ((a, err), x) = f (ext w) in ((a, err), emit (Call m as err) (w\<lparr>ext := x\<rparr>)))"

subsection \<open>NewHandle\<close>

definition DefaultSocket :: string where
  "DefaultSocket = ''unix:/run/podman/io.podman''"

definition NewHandle ::
  "('ctx, 'conn, 'e, 'v) env \<Rightarrow> 'ctx \<Rightarrow> ('conn, 'e, 'v) world
     \<Rightarrow> (('ctx, 'conn) Handle \<times> 'v err) \<times> ('conn, 'e, 'v) world" where
  "NewHandle E c w =
     (let w1 = emit (Log (''connecting to '' @ DefaultSocket)) w;
          ((cn, err), w2) =
             call1 ''varlink.NewConnection'' [DefaultSocket] (NewConnection E c DefaultSocket) w1;
          w3 = emit (Log (''connected to '' @ DefaultSocket)) w2
      in ((\<lparr>ctx = c, conn = cn\<rparr>, err), w3))"

subsection \<open>Queries by prefix\<close>

text \<open>\<open>strings.HasPrefix\<close>: a comparison of bytes.\<close>

definition HasPrefix :: "string \<Rightarrow> string \<Rightarrow> bool" where
  "HasPrefix s prefix' \<longleftrightarrow> length s \<ge> length prefix' \<and> take (length prefix') s = prefix'"

fun GetPrefixedContainers_loop ::
  "string \<Rightarrow> Container list \<Rightarrow> Container list \<Rightarrow> ('conn, 'e, 'v) world
     \<Rightarrow> Container list \<times> ('conn, 'e, 'v) world" where
  "GetPrefixedContainers_loop prefix' [] ret w = (ret, w)"
| "GetPrefixedContainers_loop prefix' (cont # rest) ret w =
     (if HasPrefix (Names cont) prefix'
      then GetPrefixedContainers_loop prefix' rest (ret @ [cont])
             (emit (Log (''matching container: '' @ Names cont @ '' ('' @ Id' cont @ '')'' @ nl)) w)
      else GetPrefixedContainers_loop prefix' rest ret w)"

definition GetPrefixedContainers ::
  "('ctx, 'conn, 'e, 'v) env \<Rightarrow> ('ctx, 'conn) Handle \<Rightarrow> string \<Rightarrow> ('conn, 'e, 'v) world
     \<Rightarrow> (Container list \<times> 'v err) \<times> ('conn, 'e, 'v) world" where
  "GetPrefixedContainers E hnd prefix' w =
     (let ret = [];
          ((containers, err), w1) =
             call1 ''ListContainers'' [] (rpc_ListContainers E (ctx hnd) (conn hnd)) w
      in if err \<noteq> None then ((ret, err), w1)
         else
           let w2 = emit (Log (''found '' @ decimal (length containers)
                                 @ '' containers in the system'')) w1;
               (ret, w3) = GetPrefixedContainers_loop prefix' containers ret w2;
               w4 = emit (Log (''found '' @ decimal (length ret)
                                 @ '' containers matching the prefix'')) w3
           in ((ret, None), w4))"

fun GetPrefixedVolumes_loop ::
  "string \<Rightarrow> Volume list \<Rightarrow> Volume list \<Rightarrow> ('conn, 'e, 'v) world
     \<Rightarrow> Volume list \<times> ('conn, 'e, 'v) world" where
  "GetPrefixedVolumes_loop prefix' [] ret w = (ret, w)"
| "GetPrefixedVolumes_loop prefix' (vol # rest) ret w =
     (if HasPrefix (Name vol) prefix'
      then GetPrefixedVolumes_loop prefix' rest (ret @ [vol])
             (emit (Log (''matching volume: '' @ Name vol @ '' @('' @ MountPoint vol @ '')'' @ nl)) w)
      else GetPrefixedVolumes_loop prefix' rest ret w)"

definition GetPrefixedVolumes ::
  "('ctx, 'conn, 'e, 'v) env \<Rightarrow> ('ctx, 'conn) Handle \<Rightarrow> string \<Rightarrow> ('conn, 'e, 'v) world
     \<Rightarrow> (Volume list \<times> 'v err) \<times> ('conn, 'e, 'v) world" where
  "GetPrefixedVolumes E hnd prefix' w =
     (let ret = []; args = []; all = True;
          ((volumes, err), w1) =
             call1 ''GetVolumes'' args (rpc_GetVolumes E (ctx hnd) (conn hnd) args all) w
      in if err \<noteq> None then ((ret, err), w1)
         else
           let w2 = emit (Log (''found '' @ decimal (length volumes)
                                 @ '' volumess in the system'')) w1;
               (ret, w3) = GetPrefixedVolumes_loop prefix' volumes ret w2;
               w4 = emit (Log (''found '' @ decimal (length ret)
                                 @ '' volumes matching the prefix'')) w3
           in ((ret, err), w4))"

text \<open>\<open>iopodman.Container{}\<close>: every field at its zero value.\<close>

definition Container_zero :: Container where
  "Container_zero = \<lparr>Id' = [], Names = []\<rparr>"

definition FindPrefixedContainer ::
  "('ctx, 'conn, 'e, 'v) env \<Rightarrow> ('ctx, 'conn) Handle \<Rightarrow> string \<Rightarrow> ('conn, 'e, 'v) world
     \<Rightarrow> (Container \<times> 'v err) \<times> ('conn, 'e, 'v) world" where
  "FindPrefixedContainer E hnd prefixedName w =
     (let ((containers, err), w1) = GetPrefixedContainers E hnd prefixedName w
      in if err \<noteq> None then ((Container_zero, err), w1)
         else if length containers \<noteq> 1
         then ((Container_zero,
                Some (Errorf (''failed to found the container with name '' @ prefixedName))), w1)
         else ((containers ! 0, None), w1))"

subsection \<open>Single calls\<close>

text \<open>
  Each of these methods is one call through the handle's context and connection. The
  \<open>io.Writer\<close> that \<open>Exec\<close> and \<open>PullImage\<close> take is never used and is left out.
\<close>

definition Exec ::
  "('ctx, 'conn, 'e, 'v) env \<Rightarrow> ('ctx, 'conn) Handle \<Rightarrow> string \<Rightarrow> string list
     \<Rightarrow> ('conn, 'e, 'v) world \<Rightarrow> 'v err \<times> ('conn, 'e, 'v) world" where
  "Exec E hnd container args w =
     call0 ''ExecContainer'' [container]
       (rpc_ExecContainer E (ctx hnd) (conn hnd)
          \<lparr>Name' = container, Tty = True, Privileged = True, Cmd = args\<rparr>) w"

fun RemoveVolumes_loop ::
  "Volume list \<Rightarrow> string list \<Rightarrow> ('conn, 'e, 'v) world \<Rightarrow> string list \<times> ('conn, 'e, 'v) world" where
  "RemoveVolumes_loop [] volumeNames w = (volumeNames, w)"
| "RemoveVolumes_loop (vol # rest) volumeNames w =
     RemoveVolumes_loop rest (volumeNames @ [Name vol])
       (emit (Log (''removing volume '' @ Name vol @ '' @'' @ MountPoint vol)) w)"

definition RemoveVolumes ::
  "('ctx, 'conn, 'e, 'v) env \<Rightarrow> ('ctx, 'conn) Handle \<Rightarrow> Volume list
     \<Rightarrow> ('conn, 'e, 'v) world \<Rightarrow> 'v err \<times> ('conn, 'e, 'v) world" where
  "RemoveVolumes E hnd volumes w =
     (let (volumeNames, w1) = RemoveVolumes_loop volumes [] w
      in call0 ''VolumeRemove'' volumeNames
           (rpc_VolumeRemove E (ctx hnd) (conn hnd) \<lparr>Volumes = volumeNames, Force = True\<rparr>) w1)"

definition RemoveContainer ::
  "('ctx, 'conn, 'e, 'v) env \<Rightarrow> ('ctx, 'conn) Handle \<Rightarrow> Container \<Rightarrow> bool \<Rightarrow> bool
     \<Rightarrow> ('conn, 'e, 'v) world \<Rightarrow> (string \<times> 'v err) \<times> ('conn, 'e, 'v) world" where
  "RemoveContainer E hnd cont force removeVolumes w =
     (let w1 = emit (Log (''trying to remove: '' @ Names cont @ '' ('' @ Id' cont @ '') force=''
                          @ v_bool force @ '' removeVolumes='' @ v_bool removeVolumes @ nl)) w
      in call1 ''RemoveContainer'' [Id' cont]
           (rpc_RemoveContainer E (ctx hnd) (conn hnd) (Id' cont) force removeVolumes) w1)"

definition CreateNamedVolume ::
  "('ctx, 'conn, 'e, 'v) env \<Rightarrow> ('ctx, 'conn) Handle \<Rightarrow> string
     \<Rightarrow> ('conn, 'e, 'v) world \<Rightarrow> (string \<times> 'v err) \<times> ('conn, 'e, 'v) world" where
  "CreateNamedVolume E hnd name w =
     call1 ''VolumeCreate'' [name]
       (rpc_VolumeCreate E (ctx hnd) (conn hnd) \<lparr>VolumeName = name\<rparr>) w"

definition CreateContainer ::
  "('ctx, 'conn, 'e, 'v) env \<Rightarrow> ('ctx, 'conn) Handle \<Rightarrow> 'v
     \<Rightarrow> ('conn, 'e, 'v) world \<Rightarrow> (string \<times> 'v err) \<times> ('conn, 'e, 'v) world" where
  "CreateContainer E hnd conf w =
     call1 ''CreateContainer'' [] (rpc_CreateContainer E (ctx hnd) (conn hnd) conf) w"

definition StopContainer ::
  "('ctx, 'conn, 'e, 'v) env \<Rightarrow> ('ctx, 'conn) Handle \<Rightarrow> string \<Rightarrow> int
     \<Rightarrow> ('conn, 'e, 'v) world \<Rightarrow> (string \<times> 'v err) \<times> ('conn, 'e, 'v) world" where
  "StopContainer E hnd name timeout w =
     call1 ''StopContainer'' [name] (rpc_StopContainer E (ctx hnd) (conn hnd) name timeout) w"

definition StartContainer ::
  "('ctx, 'conn, 'e, 'v) env \<Rightarrow> ('ctx, 'conn) Handle \<Rightarrow> string
     \<Rightarrow> ('conn, 'e, 'v) world \<Rightarrow> (string \<times> 'v err) \<times> ('conn, 'e, 'v) world" where
  "StartContainer E hnd contID w =
     call1 ''StartContainer'' [contID] (rpc_StartContainer E (ctx hnd) (conn hnd) contID) w"

definition WaitContainer ::
  "('ctx, 'conn, 'e, 'v) env \<Rightarrow> ('ctx, 'conn) Handle \<Rightarrow> string \<Rightarrow> int
     \<Rightarrow> ('conn, 'e, 'v) world \<Rightarrow> (int \<times> 'v err) \<times> ('conn, 'e, 'v) world" where
  "WaitContainer E hnd name interval w =
     call1 ''WaitContainer'' [name] (rpc_WaitContainer E (ctx hnd) (conn hnd) name interval) w"

subsection \<open>PullImage\<close>

text \<open>
  The loop over \<open>tries\<close>: \<open>idx\<close> is the index and \<open>i\<close> the element. The result is
  \<open>True\<close> when an attempt succeeded and the function returned \<open>nil\<close> from inside the loop,
  \<open>False\<close> when the loop ran out.
\<close>

fun PullImage_loop ::
  "('ctx, 'conn, 'e, 'v) env \<Rightarrow> ('ctx, 'conn) Handle \<Rightarrow> string \<Rightarrow> nat \<Rightarrow> nat list
     \<Rightarrow> ('conn, 'e, 'v) world \<Rightarrow> bool \<times> ('conn, 'e, 'v) world" where
  "PullImage_loop E hnd ref idx [] w = (False, w)"
| "PullImage_loop E hnd ref idx (i # rest) w =
     (let w1 = emit (SleepSeconds i) w;
          w2 = emit (Log (''attempt #'' @ decimal idx @ '' to download '' @ ref @ nl)) w1;
          ((_, err), w3) =
             call1 ''PullImage'' [ref] (rpc_PullImage E (ctx hnd) (conn hnd) ref) w2
      in if err \<noteq> None
         then PullImage_loop E hnd ref (Suc idx) rest
                (emit (Log (''failed to download '' @ ref @ '': '' @ v_error (Fmt E) err @ nl)) w3)
         else (True, w3))"

definition PullImage ::
  "('ctx, 'conn, 'e, 'v) env \<Rightarrow> ('ctx, 'conn) Handle \<Rightarrow> string
     \<Rightarrow> ('conn, 'e, 'v) world \<Rightarrow> 'v err \<times> ('conn, 'e, 'v) world" where
  "PullImage E hnd ref w =
     (let tries = [0, 1, 2, 6];
          (done, w1) = PullImage_loop E hnd ref 0 tries w
      in if done then (None, w1)
         else (Some (Errorf (''failed to download '' @ ref @ '' '' @ decimal (length tries)
                               @ '' times, giving up.'')), w1))"

subsection \<open>Terminal\<close>

text \<open>
  The preparing part of \<open>Terminal\<close>, up to the second \<open>defer\<close>: the two calls, opening the
  socket, raw mode. It ends either with the error \<open>Terminal\<close> returns at once (\<open>Inl\<close>), or
  with the open socket and the saved terminal state (\<open>Inr\<close>). When \<open>MakeRaw\<close> fails the
  socket is already open and the deferred \<open>Close\<close> runs.
\<close>

definition Terminal_prepare ::
  "('ctx, 'conn, 'e, 'v) env \<Rightarrow> ('ctx, 'conn) Handle \<Rightarrow> string \<Rightarrow> nat
     \<Rightarrow> ('conn, 'e, 'v) world \<Rightarrow> ('v err + nat \<times> termios) \<times> ('conn, 'e, 'v) world" where
  "Terminal_prepare E hnd container file w =
     (let detachKeys = []; start = False;
          (err, w1) = call0 ''Attach'' [container]
                        (rpc_Attach E (ctx hnd) (conn hnd) container detachKeys start) w
      in if err \<noteq> None then (Inl err, w1)
         else
           let ((socks, err), w2) = call1 ''GetAttachSockets'' [container]
                                      (rpc_GetAttachSockets E (ctx hnd) (conn hnd) container) w1
           in if err \<noteq> None then (Inl err, w2)
              else
                let ((attached, err), w3) = call1 ''os.OpenFile'' [Io_socket socks]
                                              (OpenFile E (Io_socket socks)) w2
                in if err \<noteq> None then (Inl err, w3)
                   else
                     (case MakeRaw E file (tty w3 file) of
                        Inl e \<Rightarrow> (Inl (Some e), emit (Closed (File attached)) w3)
                      | Inr raw \<Rightarrow>
                          (Inr (attached, tty w3 file),
                           (emit (MadeRaw file) w3)\<lparr>tty := (tty w3)(file := raw)\<rparr>)))"

text \<open>
  The streaming part. Three goroutines each do their work and then send its error on
  \<open>errChan\<close>; the fourth waits for the interrupt signal and closes \<open>errChan\<close>; the function
  itself receives once from \<open>errChan\<close> and returns what it received.
\<close>

datatype activity = CopyToTerminal | CopyToSocket | ExecCall

text \<open>The work of a sending goroutine, up to the value it sends.\<close>

fun activity_result ::
  "('ctx, 'conn, 'e, 'v) env \<Rightarrow> ('ctx, 'conn) Handle \<Rightarrow> string \<Rightarrow> string list \<Rightarrow> nat \<Rightarrow> nat
     \<Rightarrow> activity \<Rightarrow> ('conn, 'e, 'v) world \<Rightarrow> 'v err \<times> ('conn, 'e, 'v) world" where
  "activity_result E hnd container args file attached CopyToTerminal w =
     (let (err, x) = io_Copy E file attached (ext w) in (err, w\<lparr>ext := x\<rparr>))"
| "activity_result E hnd container args file attached CopyToSocket w =
     (let (err, x) = io_Copy E attached file (ext w) in (err, w\<lparr>ext := x\<rparr>))"
| "activity_result E hnd container args file attached ExecCall w =
     call0 ''ExecContainer'' [container]
       (rpc_ExecContainer E (ctx hnd) (conn hnd)
          \<lparr>Name' = container, Tty = IsTerminal E file, Privileged = True, Cmd = args\<rparr>) w"

text \<open>
  The scheduler's choices, in the order they happen: the interrupt goroutine gets its
  signal and closes the channel; a sending goroutine finishes its work and reaches its
  send; the function reaches its receive.
\<close>

datatype sched = Interrupt | Done activity | Receive

text \<open>
  An unbuffered channel of errors, as the Go runtime keeps it: closed or not, the senders
  parked on it with their values in arrival order, and whether the receiver is parked on
  it. \<open>sent\<close> lists the goroutines that have reached their send, each of which sends
  once.
\<close>

record 'v chan =
  closed :: bool
  sendq :: "'v err list"
  sent :: "activity list"
  receiving :: bool

definition make_chan :: "'v chan" where
  "make_chan = \<lparr>closed = False, sendq = [], sent = [], receiving = False\<rparr>"

text \<open>
  How the function's one receive ends: it returned a value; the schedule ended with the
  receive still blocked; or the process died of a panic (a send on a closed channel,
  also for a sender parked when the channel is closed).
\<close>

datatype 'a outcome = Returned 'a | Blocked | Panicked

text \<open>
  The run of the schedule until the receive completes. A receive from a closed channel
  yields the zero value \<open>nil\<close>; a send meets a parked receiver at once, and parks
  otherwise; a receive takes the first parked sender's value. What the goroutines left
  behind do after the function has returned is not part of its run.
\<close>

fun Terminal_stream ::
  "('ctx, 'conn, 'e, 'v) env \<Rightarrow> ('ctx, 'conn) Handle \<Rightarrow> string \<Rightarrow> string list \<Rightarrow> nat \<Rightarrow> nat
     \<Rightarrow> sched list \<Rightarrow> 'v chan \<Rightarrow> ('conn, 'e, 'v) world
     \<Rightarrow> 'v err outcome \<times> ('conn, 'e, 'v) world" where
  "Terminal_stream E hnd container args file attached [] errChan w = (Blocked, w)"
| "Terminal_stream E hnd container args file attached (Interrupt # rest) errChan w =
     (if closed errChan then Terminal_stream E hnd container args file attached rest errChan w
      else if sendq errChan \<noteq> [] then (Panicked, w)
      else if receiving errChan then (Returned None, w)
      else Terminal_stream E hnd container args file attached rest (errChan\<lparr>closed := True\<rparr>) w)"
| "Terminal_stream E hnd container args file attached (Done a # rest) errChan w =
     (if a \<in> set (sent errChan)
      then Terminal_stream E hnd container args file attached rest errChan w
      else
        let (err, w1) = activity_result E hnd container args file attached a w
        in if closed errChan then (Panicked, w1)
           else if receiving errChan then (Returned err, w1)
           else Terminal_stream E hnd container args file attached rest
                  (errChan\<lparr>sendq := sendq errChan @ [err], sent := a # sent errChan\<rparr>) w1)"
| "Terminal_stream E hnd container args file attached (Receive # rest) errChan w =
     (if receiving errChan
      then Terminal_stream E hnd container args file attached rest errChan w
      else
        (case sendq errChan of
           err # q \<Rightarrow> (Returned err, w)
         | [] \<Rightarrow>
             if closed errChan then (Returned None, w)
             else Terminal_stream E hnd container args file attached rest
                    (errChan\<lparr>receiving := True\<rparr>) w))"

text \<open>
  \<open>Terminal\<close>: when the receive returns, the deferred calls run last in, first out:
  \<open>terminal.Restore\<close> with the saved state, then \<open>attached.Close\<close>; both results are
  discarded by the code. When the receive never returns, neither does \<open>Terminal\<close>, and
  nothing deferred runs.
\<close>

definition Terminal ::
  "('ctx, 'conn, 'e, 'v) env \<Rightarrow> ('ctx, 'conn) Handle \<Rightarrow> string \<Rightarrow> string list \<Rightarrow> nat
     \<Rightarrow> sched list \<Rightarrow> ('conn, 'e, 'v) world \<Rightarrow> 'v err outcome \<times> ('conn, 'e, 'v) world" where
  "Terminal E hnd container args file sch w =
     (case Terminal_prepare E hnd container file w of
        (Inl err, w1) \<Rightarrow> (Returned err, w1)
      | (Inr (attached, state), w4) \<Rightarrow>
          (case Terminal_stream E hnd container args file attached sch make_chan w4 of
             (Returned err, w5) \<Rightarrow>
               (Returned err,
                emit (Closed (File attached))
                  ((emit (Restored file state) w5)\<lparr>tty := (tty w5)(file := state)\<rparr>))
           | (Blocked, w5) \<Rightarrow> (Blocked, w5)
           | (Panicked, w5) \<Rightarrow> (Panicked, w5)))"



subsection \<open>A concrete environment\<close>

text \<open>
  An environment to run the model on: contexts are \<open>unit\<close>, connections are numbers, and
  the outside world is a counter of the image pulls made so far. Every call succeeds, but the
  first three image pulls fail.
\<close>

definition fmt0 :: "unit fmt" where
  "fmt0 = \<lparr>Error_method = (\<lambda>e. ''io.podman.Error''), fmt_v = (\<lambda>v. ''[]'')\<rparr>"

definition env0 :: "(unit, nat, nat, unit) env" where
  "env0 = \<lparr>
     Fmt = fmt0,
     NewConnection = (\<lambda>c a x. ((Some 7, None), x)),
     rpc_Attach = (\<lambda>c cn ct dk st x. (None, x)),
     rpc_GetAttachSockets = (\<lambda>c cn ct x. ((\<lparr>Io_socket = ''/run/attach/io''\<rparr>, None), x)),
     rpc_ExecContainer = (\<lambda>c cn opts x. (None, x)),
     rpc_ListContainers = (\<lambda>c cn x. (([], None), x)),
     rpc_GetVolumes = (\<lambda>c cn as al x. (([], None), x)),
     rpc_VolumeRemove = (\<lambda>c cn opts x. (None, x)),
     rpc_RemoveContainer = (\<lambda>c cn i f v x. ((i, None), x)),
     rpc_VolumeCreate = (\<lambda>c cn opts x. ((VolumeName opts, None), x)),
     rpc_CreateContainer = (\<lambda>c cn conf x. ((''c0'', None), x)),
     rpc_StopContainer = (\<lambda>c cn n t x. ((n, None), x)),
     rpc_StartContainer = (\<lambda>c cn n x. ((n, None), x)),
     rpc_WaitContainer = (\<lambda>c cn n i x. ((0, None), x)),
     rpc_PullImage = (\<lambda>c cn r x. ((r, if x < 3 then Some (ErrorOccurred ''timeout'') else None), Suc x)),
     OpenFile = (\<lambda>p x. ((3, None), x)),
     MakeRaw = (\<lambda>fd m. Inr (m + 1)),
     IsTerminal = (\<lambda>fd. True),
     io_Copy = (\<lambda>dst src x. (None, x))\<rparr>"

definition hnd0 :: "(unit, nat) Handle" where
  "hnd0 = \<lparr>ctx = (), conn = Some 7\<rparr>"

definition w0 :: "(nat, nat, unit) world" where
  "w0 = \<lparr>ext = 0, tty = (\<lambda>fd. 0), out = []\<rparr>"

definition containers0 :: "Container list" where
  "containers0 =
     [\<lparr>Id' = ''1'', Names = ''pack8s-a''\<rparr>, \<lparr>Id' = ''2'', Names = ''other''\<rparr>,
      \<lparr>Id' = ''3'', Names = ''Pack8s-b''\<rparr>, \<lparr>Id' = ''4'', Names = ''pack8s-c''\<rparr>]"

definition volumes0 :: "Volume list" where
  "volumes0 =
     [\<lparr>Name = ''pack8s-1-test'', MountPoint = ''/v/1''\<rparr>,
      \<lparr>Name = ''some-pack-test'', MountPoint = ''/v/2''\<rparr>,
      \<lparr>Name = ''pack8s-2-test'', MountPoint = ''/v/3''\<rparr>]"

subsection \<open>The handle construction as the specification words it\<close>

text \<open>
  The specification's \<open>open(context, socketAddress?)\<close>, written from its words for
  comparison with \<open>NewHandle\<close>: the address is optional, the default address stands in for
  a missing one, the connection is established once and its error handed back as it is.
\<close>

definition open_spec ::
  "('ctx, 'conn, 'e, 'v) env \<Rightarrow> 'ctx \<Rightarrow> string option \<Rightarrow> ('conn, 'e, 'v) world
     \<Rightarrow> ('ctx, 'conn) Handle \<times> 'v err" where
  "open_spec E c socketAddress w =
     (let address = (case socketAddress of None \<Rightarrow> DefaultSocket | Some a \<Rightarrow> a);
          ((cn, err), x) = NewConnection E c address (ext w)
      in (\<lparr>ctx = c, conn = cn\<rparr>, err))"

text \<open>An engine that listens on another socket only, and one whose list call fails.\<close>

definition env_alt :: "(unit, nat, nat, unit) env" where
  "env_alt = env0\<lparr>NewConnection :=
     (\<lambda>c a x. (if a = ''unix:/tmp/alt.sock'' then (Some 9, None)
                else (None, Some (OtherError ''*net.OpError'' ''dial unix: no such file'')), x))\<rparr>"

definition env_listfail :: "(unit, nat, nat, unit) env" where
  "env_listfail = env0\<lparr>rpc_ListContainers :=
     (\<lambda>c cn x. (([], Some (ErrorOccurred ''boom'')), x))\<rparr>"

definition env_list :: "(unit, nat, nat, unit) env" where
  "env_list = env0\<lparr>rpc_ListContainers := (\<lambda>c cn x. ((containers0, None), x))\<rparr>"

subsection \<open>Reading the effect trace\<close>

text \<open>
  The effects of a run other than its log lines, the effects that \<open>n\<close> attempts to pull
  \<open>ref\<close> leave (a sleep of the attempt's delay, then the call with its outcome), and the
  seconds an effect sleeps.
\<close>

fun is_Log :: "('conn, 'v) effect \<Rightarrow> bool" where
  "is_Log (Log s) = True"
| "is_Log e = False"

definition attempts :: "string \<Rightarrow> nat list \<Rightarrow> 'v err list \<Rightarrow> ('conn, 'v) effect list" where
  "attempts ref delays errs =
     concat (map (\<lambda>(d, e). [SleepSeconds d, Call ''PullImage'' [ref] e]) (zip delays errs))"

fun sleep_seconds :: "('conn, 'v) effect \<Rightarrow> nat" where
  "sleep_seconds (SleepSeconds n) = n"
| "sleep_seconds e = 0"

text \<open>An engine whose every pull fails.\<close>

definition env_pullfail :: "(unit, nat, nat, unit) env" where
  "env_pullfail = env0\<lparr>rpc_PullImage := (\<lambda>c cn r x. ((r, Some EOF), Suc x))\<rparr>"

text \<open>An effect that is a call leaving the process.\<close>

fun is_Call :: "('conn, 'v) effect \<Rightarrow> bool" where
  "is_Call (Call m as err) = True"
| "is_Call e = False"

text \<open>
  The three calls that \<open>Terminal\<close> prepares with, each on what the one before left of the
  outside world: the attach call, the call for the sockets, the opening of the I/O socket.
\<close>

definition Attach_call ::
  "('ctx, 'conn, 'e, 'v) env \<Rightarrow> ('ctx, 'conn) Handle \<Rightarrow> string \<Rightarrow> ('conn, 'e, 'v) world
     \<Rightarrow> 'v err \<times> 'e" where
  "Attach_call E hnd container w = rpc_Attach E (ctx hnd) (conn hnd) container [] False (ext w)"

definition GetAttachSockets_call ::
  "('ctx, 'conn, 'e, 'v) env \<Rightarrow> ('ctx, 'conn) Handle \<Rightarrow> string \<Rightarrow> ('conn, 'e, 'v) world
     \<Rightarrow> (Sockets \<times> 'v err) \<times> 'e" where
  "GetAttachSockets_call E hnd container w =
     rpc_GetAttachSockets E (ctx hnd) (conn hnd) container (snd (Attach_call E hnd container w))"

definition OpenFile_call ::
  "('ctx, 'conn, 'e, 'v) env \<Rightarrow> ('ctx, 'conn) Handle \<Rightarrow> string \<Rightarrow> ('conn, 'e, 'v) world
     \<Rightarrow> (nat \<times> 'v err) \<times> 'e" where
  "OpenFile_call E hnd container w =
     OpenFile E (Io_socket (fst (fst (GetAttachSockets_call E hnd container w))))
       (snd (GetAttachSockets_call E hnd container w))"



definition env_attachfail :: "(unit, nat, nat, unit) env" where
  "env_attachfail = env0\<lparr>rpc_Attach := (\<lambda>c cn ct dk st x. (Some (ContainerNotFound ct), x))\<rparr>"

subsection \<open>Sequences of method calls\<close>

text \<open>
  The methods of \<open>Handle\<close> as values, with their arguments (for \<open>Terminal\<close> also the
  schedule of its goroutines), and the world a method leaves when it is run on a handle.
\<close>

datatype 'v operation =
    Op_Terminal string "string list" nat "sched list"
  | Op_Exec string "string list"
  | Op_GetPrefixedContainers string
  | Op_GetPrefixedVolumes string
  | Op_FindPrefixedContainer string
  | Op_RemoveVolumes "Volume list"
  | Op_RemoveContainer Container bool bool
  | Op_CreateNamedVolume string
  | Op_CreateContainer 'v
  | Op_StopContainer string int
  | Op_StartContainer string
  | Op_WaitContainer string int
  | Op_PullImage string

fun perform ::
  "('ctx, 'conn, 'e, 'v) env \<Rightarrow> ('ctx, 'conn) Handle \<Rightarrow> 'v operation
     \<Rightarrow> ('conn, 'e, 'v) world \<Rightarrow> ('conn, 'e, 'v) world" where
  "perform E hnd (Op_Terminal container args file sch) w = snd (Terminal E hnd container args file sch w)"
| "perform E hnd (Op_Exec container args) w = snd (Exec E hnd container args w)"
| "perform E hnd (Op_GetPrefixedContainers p) w = snd (GetPrefixedContainers E hnd p w)"
| "perform E hnd (Op_GetPrefixedVolumes p) w = snd (GetPrefixedVolumes E hnd p w)"
| "perform E hnd (Op_FindPrefixedContainer p) w = snd (FindPrefixedContainer E hnd p w)"
| "perform E hnd (Op_RemoveVolumes volumes) w = snd (RemoveVolumes E hnd volumes w)"
| "perform E hnd (Op_RemoveContainer cont force removeVolumes) w =
     snd (RemoveContainer E hnd cont force removeVolumes w)"
| "perform E hnd (Op_CreateNamedVolume name) w = snd (CreateNamedVolume E hnd name w)"
| "perform E hnd (Op_CreateContainer conf) w = snd (CreateContainer E hnd conf w)"
| "perform E hnd (Op_StopContainer name timeout) w = snd (StopContainer E hnd name timeout w)"
| "perform E hnd (Op_StartContainer contID) w = snd (StartContainer E hnd contID w)"
| "perform E hnd (Op_WaitContainer name interval) w = snd (WaitContainer E hnd name interval w)"
| "perform E hnd (Op_PullImage ref) w = snd (PullImage E hnd ref w)"

text \<open>
  A method call on the caller's handle. Every method is declared on \<open>Handle\<close>, not on
  \<open>*Handle\<close>: it works on a copy, and the caller's handle is after the call what it was
  before. \<open>invoke_all\<close> is a sequence of calls on the same handle.
\<close>

fun invoke ::
  "('ctx, 'conn, 'e, 'v) env \<Rightarrow> 'v operation
     \<Rightarrow> ('ctx, 'conn) Handle \<times> ('conn, 'e, 'v) world
     \<Rightarrow> ('ctx, 'conn) Handle \<times> ('conn, 'e, 'v) world" where
  "invoke E op (hnd, w) = (hnd, perform E hnd op w)"

definition invoke_all ::
  "('ctx, 'conn, 'e, 'v) env \<Rightarrow> 'v operation list
     \<Rightarrow> ('ctx, 'conn) Handle \<times> ('conn, 'e, 'v) world
     \<Rightarrow> ('ctx, 'conn) Handle \<times> ('conn, 'e, 'v) world" where
  "invoke_all E ops s = fold (invoke E) ops s"

text \<open>An effect that closes a connection.\<close>

fun closes_connection :: "('conn, 'v) effect \<Rightarrow> bool" where
  "closes_connection (Closed (Connection c)) = True"
| "closes_connection e = False"

section \<open>Theorems\<close>

lemma SprintError_nonempty: "SprintError F m err \<noteq> []"
  by (simp add: SprintError_def)

subsection \<open>SprintError\<close>

lemma sublist_in_right: "sublist x b \<Longrightarrow> sublist x (a @ b)"
  by (simp add: sublist_append)

lemmas sublist_here = sublist_order.order_refl

lemma SprintError_EOF:
  "SprintError F m (Some EOF) = ''Error calling '' @ m @ '': '' @ ''Connection closed'' @ nl"
  by (simp add: SprintError_def)

lemma SprintError_ErrUnexpectedEOF:
  "SprintError F m (Some ErrUnexpectedEOF)
     = ''Error calling '' @ m @ '': '' @ ''Connection aborted'' @ nl"
  by (simp add: SprintError_def)

lemma SprintError_OtherError:
  "SprintError F m (Some (OtherError t s))
     = ''Error calling '' @ m @ '': '' @ t @ '' - '' @ sq @ s @ sq @ nl"
  by (simp add: SprintError_def)

lemma SprintError_nil:
  "SprintError F m None
     = ''Error calling '' @ m @ '': '' @ ''<nil>'' @ '' - '' @ sq @ ''<nil>'' @ sq @ nl"
  by (simp add: SprintError_def)

text \<open>
  Claim C6. For every method name and every error value, also \<open>nil\<close>, \<open>SprintError\<close>
  returns a non-empty string that contains the method name; and for each structured kind
  the string contains the value of every field the kind documents: the name of a missing
  image, container or pod, the pod name and the error list of a multi-container error (the
  list in its default format), the reason, and the parameter, method, interface or
  parameters of a protocol error.
\<close>

theorem SprintError_renders_method_and_fields:
  "SprintError F m err \<noteq> []
   \<and> sublist m (SprintError F m err)
   \<and> sublist i (SprintError F m (Some (ImageNotFound i)))
   \<and> sublist i (SprintError F m (Some (ContainerNotFound i)))
   \<and> sublist n (SprintError F m (Some (PodNotFound n)))
   \<and> sublist n (SprintError F m (Some (NoContainersInPod n)))
   \<and> sublist p (SprintError F m (Some (PodContainerError p es)))
   \<and> sublist (fmt_v F es) (SprintError F m (Some (PodContainerError p es)))
   \<and> sublist r (SprintError F m (Some (ErrorOccurred r)))
   \<and> sublist r (SprintError F m (Some (RuntimeError r)))
   \<and> sublist pa (SprintError F m (Some (InvalidParameter pa)))
   \<and> sublist me (SprintError F m (Some (MethodNotFound me)))
   \<and> sublist me (SprintError F m (Some (MethodNotImplemented me)))
   \<and> sublist ifc (SprintError F m (Some (InterfaceNotFound ifc)))
   \<and> sublist (fmt_v F ps) (SprintError F m (Some (VarlinkError ps)))"
proof -
  have names_method: "sublist m (SprintError F m err)"
    unfolding SprintError_def
    by (rule sublist_append_rightI | rule sublist_here | rule sublist_in_right)+
  have shows_fields:
    "sublist i (SprintError F m (Some (ImageNotFound i)))"
    "sublist i (SprintError F m (Some (ContainerNotFound i)))"
    "sublist n (SprintError F m (Some (PodNotFound n)))"
    "sublist n (SprintError F m (Some (NoContainersInPod n)))"
    "sublist p (SprintError F m (Some (PodContainerError p es)))"
    "sublist (fmt_v F es) (SprintError F m (Some (PodContainerError p es)))"
    "sublist r (SprintError F m (Some (ErrorOccurred r)))"
    "sublist r (SprintError F m (Some (RuntimeError r)))"
    "sublist pa (SprintError F m (Some (InvalidParameter pa)))"
    "sublist me (SprintError F m (Some (MethodNotFound me)))"
    "sublist me (SprintError F m (Some (MethodNotImplemented me)))"
    "sublist ifc (SprintError F m (Some (InterfaceNotFound ifc)))"
    "sublist (fmt_v F ps) (SprintError F m (Some (VarlinkError ps)))"
    unfolding SprintError_def SprintError_case.simps
    by (rule sublist_append_rightI | rule sublist_here | rule sublist_in_right)+
  show ?thesis
    using SprintError_nonempty [of F m err] names_method shows_fields by blast
qed

theorem SprintError_renders_method_and_fields_witness:
  "SprintError fmt0 ''StartContainer'' (Some (ContainerNotFound ''web'')) =
     ''Error calling StartContainer: '' @ sq @ ''io.podman.Error'' @ sq @ '' name=''
       @ sq @ ''web'' @ sq @ nl
   \<and> sublist ''StartContainer'' (SprintError fmt0 ''StartContainer'' (Some (ContainerNotFound ''web'')))
   \<and> sublist ''web'' (SprintError fmt0 ''StartContainer'' (Some (ContainerNotFound ''web'')))"
  using SprintError_renders_method_and_fields
          [of fmt0 "''StartContainer''" "Some (ContainerNotFound ''web'')" "''web''"]
  by (simp add: SprintError_def fmt0_def)

text \<open>
  Claim C7. For every method name, \<open>io.EOF\<close> is rendered with \<open>Connection closed\<close> and
  \<open>io.ErrUnexpectedEOF\<close> with \<open>Connection aborted\<close>, two different messages; every other
  error value outside the recognised kinds (another error type, or \<open>nil\<close>) is rendered as
  its dynamic type name, \<open> - \<close>, and its default string form in quotes.
\<close>

theorem SprintError_sentinels_and_fallback:
  "sublist ''Connection closed'' (SprintError F m (Some EOF))
   \<and> sublist ''Connection aborted'' (SprintError F m (Some ErrUnexpectedEOF))
   \<and> SprintError F m (Some EOF) \<noteq> SprintError F m (Some ErrUnexpectedEOF)
   \<and> SprintError F m (Some (OtherError t s))
       = ''Error calling '' @ m @ '': '' @ T_error (Some (OtherError t s)) @ '' - ''
           @ sq @ v_error F (Some (OtherError t s)) @ sq @ nl
   \<and> T_error (Some (OtherError t s)) = t \<and> v_error F (Some (OtherError t s)) = s
   \<and> SprintError F m None
       = ''Error calling '' @ m @ '': '' @ T_error None @ '' - '' @ sq @ v_error F None @ sq @ nl"
proof -
  have closed: "sublist ''Connection closed'' (SprintError F m (Some EOF))"
    unfolding SprintError_EOF
    by (rule sublist_append_rightI | rule sublist_here | rule sublist_in_right)+
  have aborted: "sublist ''Connection aborted'' (SprintError F m (Some ErrUnexpectedEOF))"
    unfolding SprintError_ErrUnexpectedEOF
    by (rule sublist_append_rightI | rule sublist_here | rule sublist_in_right)+
  have distinct: "SprintError F m (Some EOF) \<noteq> SprintError F m (Some ErrUnexpectedEOF)"
    by (simp add: SprintError_def)
  show ?thesis
    using closed aborted distinct SprintError_OtherError [of F m t s] SprintError_nil [of F m]
    by simp
qed

theorem SprintError_sentinels_and_fallback_witness:
  "SprintError fmt0 ''PullImage'' (Some EOF) = ''Error calling PullImage: Connection closed'' @ nl
   \<and> SprintError fmt0 ''PullImage'' (Some ErrUnexpectedEOF)
       = ''Error calling PullImage: Connection aborted'' @ nl
   \<and> SprintError fmt0 ''PullImage'' (Some (OtherError ''*net.OpError'' ''broken pipe''))
       = ''Error calling PullImage: *net.OpError - '' @ sq @ ''broken pipe'' @ sq @ nl"
  using SprintError_sentinels_and_fallback
          [of fmt0 "''PullImage''" "''*net.OpError''" "''broken pipe''"]
  by (simp add: SprintError_def)

subsection \<open>Queries by prefix\<close>

lemma HasPrefix_prefix: "HasPrefix s p \<longleftrightarrow> prefix p s"
  unfolding HasPrefix_def prefix_def
  by (metis append_eq_conv_conj append_take_drop_id length_append le_add1)

lemma GetPrefixedContainers_loop_fst:
  "fst (GetPrefixedContainers_loop p cs ret w) = ret @ filter (\<lambda>c. HasPrefix (Names c) p) cs"
  by (induction cs arbitrary: ret w) simp_all

lemma GetPrefixedVolumes_loop_fst:
  "fst (GetPrefixedVolumes_loop p vs ret w) = ret @ filter (\<lambda>v. HasPrefix (Name v) p) vs"
  by (induction vs arbitrary: ret w) simp_all

lemma GetPrefixedContainers_fst:
  "fst (GetPrefixedContainers E hnd p w) =
     (case fst (rpc_ListContainers E (ctx hnd) (conn hnd) (ext w)) of
        (cs, None) \<Rightarrow> (filter (\<lambda>c. HasPrefix (Names c) p) cs, None)
      | (cs, Some e) \<Rightarrow> ([], Some e))"
  using GetPrefixedContainers_loop_fst[of p _ "[]"]
  by (auto simp: GetPrefixedContainers_def call1_def Let_def split_def split: option.splits)

lemma GetPrefixedVolumes_fst:
  "fst (GetPrefixedVolumes E hnd p w) =
     (case fst (rpc_GetVolumes E (ctx hnd) (conn hnd) [] True (ext w)) of
        (vs, None) \<Rightarrow> (filter (\<lambda>v. HasPrefix (Name v) p) vs, None)
      | (vs, Some e) \<Rightarrow> ([], Some e))"
  using GetPrefixedVolumes_loop_fst[of p _ "[]"]
  by (auto simp: GetPrefixedVolumes_def call1_def Let_def split_def split: option.splits)

lemma FindPrefixedContainer_fst:
  "fst (FindPrefixedContainer E hnd p w) =
     (case fst (GetPrefixedContainers E hnd p w) of
        (cs, Some e) \<Rightarrow> (Container_zero, Some e)
      | (cs, None) \<Rightarrow>
          if length cs \<noteq> 1
          then (Container_zero, Some (Errorf (''failed to found the container with name '' @ p)))
          else (cs ! 0, None))"
  by (auto simp: FindPrefixedContainer_def Let_def split_def split: option.splits)

text \<open>
  Claim C5. Whenever the list call reports a list with no error, \<open>GetPrefixedContainers\<close>
  returns, with no error, exactly the reported containers whose \<open>Names\<close> field starts with
  the prefix, compared byte by byte (so case counts), in the order the engine reported them;
  \<open>GetPrefixedVolumes\<close> does the same on the \<open>Name\<close> field of the reported volumes.
\<close>

theorem GetPrefixed_is_filter:
  "(fst (rpc_ListContainers E (ctx hnd) (conn hnd) (ext w)) = (cs, None) \<longrightarrow>
      fst (GetPrefixedContainers E hnd p w) = (filter (\<lambda>c. prefix p (Names c)) cs, None))
   \<and> (fst (rpc_GetVolumes E (ctx hnd) (conn hnd) [] True (ext w)) = (vs, None) \<longrightarrow>
      fst (GetPrefixedVolumes E hnd p w) = (filter (\<lambda>v. prefix p (Name v)) vs, None))"
  by (simp add: GetPrefixedContainers_fst GetPrefixedVolumes_fst HasPrefix_prefix)

theorem GetPrefixed_is_filter_witness:
  "fst (GetPrefixedContainers (env0\<lparr>rpc_ListContainers := (\<lambda>c cn x. ((containers0, None), x))\<rparr>)
          hnd0 ''pack8s'' w0)
     = ([\<lparr>Id' = ''1'', Names = ''pack8s-a''\<rparr>, \<lparr>Id' = ''4'', Names = ''pack8s-c''\<rparr>], None)
   \<and> fst (GetPrefixedVolumes (env0\<lparr>rpc_GetVolumes := (\<lambda>c cn as al x. ((volumes0, None), x))\<rparr>)
          hnd0 ''pack8s'' w0)
     = ([\<lparr>Name = ''pack8s-1-test'', MountPoint = ''/v/1''\<rparr>,
         \<lparr>Name = ''pack8s-2-test'', MountPoint = ''/v/3''\<rparr>], None)"
  using GetPrefixed_is_filter
          [of "env0\<lparr>rpc_ListContainers := (\<lambda>c cn x. ((containers0, None), x))\<rparr>" hnd0 w0
              containers0 "''pack8s''" "[]"]
        GetPrefixed_is_filter
          [of "env0\<lparr>rpc_GetVolumes := (\<lambda>c cn as al x. ((volumes0, None), x))\<rparr>" hnd0 w0
              "[]" "''pack8s''" volumes0]
  by (simp add: env0_def containers0_def volumes0_def)

text \<open>
  Claim C10. Whenever \<open>GetPrefixedContainers\<close> or \<open>GetPrefixedVolumes\<close> returns an error,
  the slice it returns with it is empty, whatever the failed list call handed back; and
  whenever \<open>FindPrefixedContainer\<close> returns an error, the container it returns with it is
  the zero value.
\<close>

theorem error_has_empty_result:
  "(snd (fst (GetPrefixedContainers E hnd p w)) \<noteq> None \<longrightarrow>
      fst (fst (GetPrefixedContainers E hnd p w)) = [])
   \<and> (snd (fst (GetPrefixedVolumes E hnd p w)) \<noteq> None \<longrightarrow>
      fst (fst (GetPrefixedVolumes E hnd p w)) = [])
   \<and> (snd (fst (FindPrefixedContainer E hnd p w)) \<noteq> None \<longrightarrow>
      fst (fst (FindPrefixedContainer E hnd p w)) = Container_zero)"
  by (auto simp: GetPrefixedContainers_fst GetPrefixedVolumes_fst FindPrefixedContainer_fst
           split: prod.splits option.splits if_splits)

theorem error_has_empty_result_witness:
  "snd (fst (GetPrefixedContainers
          (env0\<lparr>rpc_ListContainers := (\<lambda>c cn x. ((containers0, Some EOF), x))\<rparr>)
          hnd0 ''pack8s'' w0)) \<noteq> None
   \<and> fst (fst (GetPrefixedContainers
          (env0\<lparr>rpc_ListContainers := (\<lambda>c cn x. ((containers0, Some EOF), x))\<rparr>)
          hnd0 ''pack8s'' w0)) = []
   \<and> snd (fst (GetPrefixedVolumes
          (env0\<lparr>rpc_GetVolumes := (\<lambda>c cn as al x. ((volumes0, Some EOF), x))\<rparr>)
          hnd0 ''pack8s'' w0)) \<noteq> None
   \<and> fst (fst (GetPrefixedVolumes
          (env0\<lparr>rpc_GetVolumes := (\<lambda>c cn as al x. ((volumes0, Some EOF), x))\<rparr>)
          hnd0 ''pack8s'' w0)) = []
   \<and> snd (fst (FindPrefixedContainer
          (env0\<lparr>rpc_ListContainers := (\<lambda>c cn x. ((containers0, None), x))\<rparr>)
          hnd0 ''pack8s'' w0)) \<noteq> None
   \<and> fst (fst (FindPrefixedContainer
          (env0\<lparr>rpc_ListContainers := (\<lambda>c cn x. ((containers0, None), x))\<rparr>)
          hnd0 ''pack8s'' w0)) = Container_zero"
  using error_has_empty_result
          [of "env0\<lparr>rpc_ListContainers := (\<lambda>c cn x. ((containers0, Some EOF), x))\<rparr>"
              hnd0 "''pack8s''" w0]
        error_has_empty_result
          [of "env0\<lparr>rpc_GetVolumes := (\<lambda>c cn as al x. ((volumes0, Some EOF), x))\<rparr>"
              hnd0 "''pack8s''" w0]
        error_has_empty_result
          [of "env0\<lparr>rpc_ListContainers := (\<lambda>c cn x. ((containers0, None), x))\<rparr>"
              hnd0 "''pack8s''" w0]
  by (simp add: GetPrefixedContainers_fst GetPrefixedVolumes_fst FindPrefixedContainer_fst
        HasPrefix_def env0_def containers0_def volumes0_def)



subsection \<open>FindPrefixedContainer\<close>

text \<open>
  Claim C4, as the code has it. When the list call fails, \<open>GetPrefixedContainers\<close> yields
  zero matches together with the call's error, and \<open>FindPrefixedContainer\<close> hands that
  error on unchanged: its message need not name the prefix.
\<close>

theorem FindPrefixedContainer_list_failure_counterexample:
  "fst (GetPrefixedContainers env_listfail hnd0 ''x'' w0) = ([], Some (ErrorOccurred ''boom''))
   \<and> fst (FindPrefixedContainer env_listfail hnd0 ''x'' w0)
       = (Container_zero, Some (ErrorOccurred ''boom''))
   \<and> v_error (Fmt env_listfail) (Some (ErrorOccurred ''boom'')) = ''io.podman.Error''
   \<and> \<not> sublist ''x'' (v_error (Fmt env_listfail) (Some (ErrorOccurred ''boom'')))"
  by (simp add: FindPrefixedContainer_fst GetPrefixedContainers_fst env_listfail_def env0_def
        fmt0_def sublist_Cons_right)

text \<open>
  Claim C4, amended. For every prefix: \<open>FindPrefixedContainer\<close> succeeds exactly when
  \<open>GetPrefixedContainers\<close> returns no error and exactly one match, and then returns that
  container; when \<open>GetPrefixedContainers\<close> returns no error and zero or several matches,
  it fails with the zero container and an error whose message ends with the prefix; when
  \<open>GetPrefixedContainers\<close> returns an error, it fails with that same error.
\<close>

theorem FindPrefixedContainer_cases:
  "(fst (GetPrefixedContainers E hnd p w) = ([c], None) \<longrightarrow>
      fst (FindPrefixedContainer E hnd p w) = (c, None))
   \<and> (fst (GetPrefixedContainers E hnd p w) = (cs, None) \<and> length cs \<noteq> 1 \<longrightarrow>
      fst (FindPrefixedContainer E hnd p w)
        = (Container_zero, Some (Errorf (''failed to found the container with name '' @ p)))
      \<and> sublist p (v_error F (Some (Errorf (''failed to found the container with name '' @ p)))))
   \<and> (fst (GetPrefixedContainers E hnd p w) = (cs, Some e) \<longrightarrow>
      fst (FindPrefixedContainer E hnd p w) = (Container_zero, Some e))
   \<and> (snd (fst (FindPrefixedContainer E hnd p w)) = None \<longleftrightarrow>
      (\<exists>c'. fst (GetPrefixedContainers E hnd p w) = ([c'], None)))"
proof -
  have names:
    "sublist p (v_error F (Some (Errorf (''failed to found the container with name '' @ p))))"
    unfolding Errorf_def v_error.simps by (rule sublist_append_leftI)
  have iff: "snd (fst (FindPrefixedContainer E hnd p w)) = None \<longleftrightarrow>
      (\<exists>c'. fst (GetPrefixedContainers E hnd p w) = ([c'], None))"
    by (cases "fst (GetPrefixedContainers E hnd p w)")
       (auto simp: FindPrefixedContainer_fst length_Suc_conv split: option.splits)
  show ?thesis
    using names iff by (auto simp: FindPrefixedContainer_fst)
qed

theorem FindPrefixedContainer_cases_witness:
  "fst (FindPrefixedContainer env_list hnd0 ''other'' w0) = (\<lparr>Id' = ''2'', Names = ''other''\<rparr>, None)
   \<and> fst (FindPrefixedContainer env_list hnd0 ''pack8s'' w0)
       = (Container_zero, Some (Errorf ''failed to found the container with name pack8s''))
   \<and> fst (FindPrefixedContainer env_list hnd0 ''zzz'' w0)
       = (Container_zero, Some (Errorf ''failed to found the container with name zzz''))
   \<and> fst (FindPrefixedContainer env_listfail hnd0 ''x'' w0)
       = (Container_zero, Some (ErrorOccurred ''boom''))"
  using FindPrefixedContainer_cases
          [of env_list hnd0 "''other''" w0 "\<lparr>Id' = ''2'', Names = ''other''\<rparr>" "[]" fmt0]
        FindPrefixedContainer_cases
          [of env_list hnd0 "''pack8s''" w0 _
              "[\<lparr>Id' = ''1'', Names = ''pack8s-a''\<rparr>, \<lparr>Id' = ''4'', Names = ''pack8s-c''\<rparr>]" fmt0]
        FindPrefixedContainer_cases [of env_list hnd0 "''zzz''" w0 _ "[]" fmt0]
        FindPrefixedContainer_cases
          [of env_listfail hnd0 "''x''" w0 _ "[]" fmt0 "ErrorOccurred ''boom''"]
  by (simp add: GetPrefixedContainers_fst HasPrefix_def env_list_def env_listfail_def env0_def
        containers0_def)

subsection \<open>NewHandle\<close>

lemma NewHandle_eq:
  "NewHandle E c w =
     (let ((cn, err), x) = NewConnection E c ''unix:/run/podman/io.podman'' (ext w)
      in ((\<lparr>ctx = c, conn = cn\<rparr>, err),
          w\<lparr>ext := x,
            out := out w @ [Log ''connecting to unix:/run/podman/io.podman'',
                            Call ''varlink.NewConnection'' [''unix:/run/podman/io.podman''] err,
                            Log ''connected to unix:/run/podman/io.podman'']\<rparr>))"
  by (simp add: NewHandle_def call1_def emit_def DefaultSocket_def Let_def split_def)

lemma NewHandle_open: "fst (NewHandle E c w) = open_spec E c None w"
  by (simp add: NewHandle_def open_spec_def call1_def emit_def Let_def split_def)

text \<open>
  Claim C8. The socket address is optional, and \<open>NewHandle\<close> is the operation with the
  address left out: every call establishes one connection, to the well-known default
  address \<open>unix:/run/podman/io.podman\<close>, and returns the handle holding the context and
  that connection together with the error of that one attempt, unchanged. It behaves as
  the specification's \<open>open\<close> with no address supplied, and it does not retry.
\<close>

theorem NewHandle_dials_default_once:
  "NewHandle E c w =
     (let ((cn, err), x) = NewConnection E c ''unix:/run/podman/io.podman'' (ext w)
      in ((\<lparr>ctx = c, conn = cn\<rparr>, err),
          w\<lparr>ext := x,
            out := out w @ [Log ''connecting to unix:/run/podman/io.podman'',
                            Call ''varlink.NewConnection'' [''unix:/run/podman/io.podman''] err,
                            Log ''connected to unix:/run/podman/io.podman'']\<rparr>))
   \<and> fst (NewHandle E c w) = open_spec E c None w"
  using NewHandle_eq [of E c w] NewHandle_open [of E c w] by simp

theorem NewHandle_dials_default_once_witness:
  "NewHandle env_alt () w0 =
     ((\<lparr>ctx = (), conn = None\<rparr>, Some (OtherError ''*net.OpError'' ''dial unix: no such file'')),
      w0\<lparr>out := [Log ''connecting to unix:/run/podman/io.podman'',
                  Call ''varlink.NewConnection'' [''unix:/run/podman/io.podman'']
                    (Some (OtherError ''*net.OpError'' ''dial unix: no such file'')),
                  Log ''connected to unix:/run/podman/io.podman'']\<rparr>)
   \<and> fst (NewHandle env0 () w0) = (\<lparr>ctx = (), conn = Some 7\<rparr>, None)"
  using NewHandle_dials_default_once [of env_alt "()" w0]
        NewHandle_dials_default_once [of env0 "()" w0]
  by (simp add: env_alt_def env0_def w0_def)

subsection \<open>PullImage\<close>

lemma attempts_Cons:
  "attempts ref (d # ds) (e # es) = SleepSeconds d # Call ''PullImage'' [ref] e # attempts ref ds es"
  by (simp add: attempts_def)

lemma attempts_Nil: "attempts ref ds [] = []"
  by (simp add: attempts_def)

text \<open>One iteration of the loop, with the effects written out.\<close>

lemma PullImage_loop_Cons:
  "PullImage_loop E hnd ref idx (i # rest) w =
     (let r = rpc_PullImage E (ctx hnd) (conn hnd) ref (ext w);
          e = snd (fst r);
          w3 = w\<lparr>ext := snd r,
                  out := out w @ [SleepSeconds i,
                     Log (''attempt #'' @ decimal idx @ '' to download '' @ ref @ nl),
                     Call ''PullImage'' [ref] e]\<rparr>
      in if e \<noteq> None
         then PullImage_loop E hnd ref (Suc idx) rest
                (w3\<lparr>out := out w3 @ [Log (''failed to download '' @ ref @ '': '' @ v_error (Fmt E) e @ nl)]\<rparr>)
         else (True, w3))"
  by (simp add: call1_def emit_def Let_def split_def del: PullImage_loop.simps(2) add: PullImage_loop.simps(2)[unfolded call1_def emit_def Let_def split_def])


lemma PullImage_loop_trace:
  fixes E :: "('ctx, 'conn, 'e, 'v) env" and w :: "('conn, 'e, 'v) world"
  shows "\<exists>tr errs.
      out (snd (PullImage_loop E hnd ref idx tries w)) = out w @ tr
    \<and> filter (\<lambda>e. \<not> is_Log e) tr = attempts ref tries errs
    \<and> length errs \<le> length tries
    \<and> (tries \<noteq> [] \<longrightarrow> errs \<noteq> [])
    \<and> (\<forall>e \<in> set (butlast errs). e \<noteq> None)
    \<and> (fst (PullImage_loop E hnd ref idx tries w) \<longleftrightarrow> errs \<noteq> [] \<and> last errs = None)
    \<and> (\<not> fst (PullImage_loop E hnd ref idx tries w) \<longrightarrow> length errs = length tries)"
proof (induction tries arbitrary: idx w)
  case Nil
  show ?case by (rule exI [of _ "[]"], rule exI [of _ "[]"]) (simp add: attempts_Nil)
next
  case (Cons i rest)
  define e where "e = snd (fst (rpc_PullImage E (ctx hnd) (conn hnd) ref (ext w)))"
  define a :: "('conn, 'v) effect" where "a = Log (''attempt #'' @ decimal idx @ '' to download '' @ ref @ nl)"
  define w3 where "w3 = w\<lparr>ext := snd (rpc_PullImage E (ctx hnd) (conn hnd) ref (ext w)),
                  out := out w @ [SleepSeconds i, a, Call ''PullImage'' [ref] e]\<rparr>"
  define f :: "('conn, 'v) effect" where "f = Log (''failed to download '' @ ref @ '': '' @ v_error (Fmt E) e @ nl)"
  define w4 where "w4 = w3\<lparr>out := out w3 @ [f]\<rparr>"
  have out3: "out w3 = out w @ [SleepSeconds i, a, Call ''PullImage'' [ref] e]"
    by (simp add: w3_def)
  have out4: "out w4 = out w @ [SleepSeconds i, a, Call ''PullImage'' [ref] e, f]"
    by (simp add: w4_def w3_def)
  have logs: "is_Log a" "is_Log f" by (simp_all add: a_def f_def)
  have step: "PullImage_loop E hnd ref idx (i # rest) w =
               (if e \<noteq> None then PullImage_loop E hnd ref (Suc idx) rest w4 else (True, w3))"
    unfolding PullImage_loop_Cons e_def a_def w3_def f_def w4_def Let_def by simp
  show ?case
  proof (cases "e = None")
    case True
    show ?thesis
      apply (rule exI [of _ "[SleepSeconds i, a, Call ''PullImage'' [ref] e]"])
      apply (rule exI [of _ "[e]"])
      using True logs by (simp add: step out3 attempts_Cons attempts_Nil del: PullImage_loop.simps)
  next
    case False
    obtain tr errs where ih:
      "out (snd (PullImage_loop E hnd ref (Suc idx) rest w4)) = out w4 @ tr"
      "filter (\<lambda>e. \<not> is_Log e) tr = attempts ref rest errs"
      "length errs \<le> length rest"
      "rest \<noteq> [] \<longrightarrow> errs \<noteq> []"
      "\<forall>e \<in> set (butlast errs). e \<noteq> None"
      "fst (PullImage_loop E hnd ref (Suc idx) rest w4) \<longleftrightarrow> errs \<noteq> [] \<and> last errs = None"
      "\<not> fst (PullImage_loop E hnd ref (Suc idx) rest w4) \<longrightarrow> length errs = length rest"
      using Cons.IH [of "Suc idx" w4] by blast
    have eq: "PullImage_loop E hnd ref idx (i # rest) w = PullImage_loop E hnd ref (Suc idx) rest w4"
      using False by (simp only: step) simp
    have c1: "out (snd (PullImage_loop E hnd ref idx (i # rest) w))
                = out w @ ([SleepSeconds i, a, Call ''PullImage'' [ref] e, f] @ tr)"
      by (simp only: eq ih(1) out4 append_assoc)
    have c2: "filter (\<lambda>e. \<not> is_Log e) ([SleepSeconds i, a, Call ''PullImage'' [ref] e, f] @ tr)
                = attempts ref (i # rest) (e # errs)"
      using logs ih(2) by (simp add: attempts_Cons)
    have c3: "length (e # errs) \<le> length (i # rest)"
      using ih(3) by simp
    have c5: "\<forall>x \<in> set (butlast (e # errs)). x \<noteq> None"
      using ih(5) False by (cases errs) simp_all
    have c6: "fst (PullImage_loop E hnd ref idx (i # rest) w)
                \<longleftrightarrow> e # errs \<noteq> [] \<and> last (e # errs) = None"
      using ih(6) False by (cases errs) (simp_all only: eq last.simps list.simps simp_thms if_True if_False)
    have c7: "\<not> fst (PullImage_loop E hnd ref idx (i # rest) w)
                \<longrightarrow> length (e # errs) = length (i # rest)"
      using ih(7) by (simp only: eq list.size) simp
    show ?thesis
      apply (rule exI [of _ "[SleepSeconds i, a, Call ''PullImage'' [ref] e, f] @ tr"])
      apply (rule exI [of _ "e # errs"])
      using c1 c2 c3 c5 c6 c7 by blast
  qed
qed


lemma decimal_4: "decimal (Suc (Suc (Suc (Suc 0)))) = ''4''"
  by code_simp

lemma sleep_seconds_filter:
  "sum_list (map sleep_seconds (filter (\<lambda>e. \<not> is_Log e) tr)) = sum_list (map sleep_seconds tr)"
proof (induction tr)
  case Nil
  show ?case by simp
next
  case (Cons x tr)
  then show ?case by (cases x) simp_all
qed

lemma sleep_seconds_attempts:
  "sum_list (map sleep_seconds (attempts ref ds errs)) = sum_list (take (length errs) ds)"
proof (induction ds arbitrary: errs)
  case Nil
  show ?case by (simp add: attempts_def)
next
  case (Cons d ds)
  show ?case
  proof (cases errs)
    case Nil
    then show ?thesis by (simp add: attempts_Nil)
  next
    case (Cons e es)
    then show ?thesis using Cons.IH [of es] by (simp add: attempts_Cons)
  qed
qed

text \<open>
  Claim C3. PullImage makes at most four attempts, sleeping 0, 1, 2 and 6 seconds before
  attempts 1 to 4. Apart from its log lines, the run is a sleep of the attempt's delay followed
  by the pull call, once per attempt made; every attempt before the last one made failed; the
  result is \<open>nil\<close> exactly when the last attempt made succeeded, so a success ends the run with
  no further attempt; and when the result is an error, four attempts were made, after delays of
  9 seconds in all, and the error is the fixed sentence naming the reference and the count 4,
  whatever the errors of the attempts were.
\<close>

theorem PullImage_four_attempts:
  fixes E :: "('ctx, 'conn, 'e, 'v) env" and w :: "('conn, 'e, 'v) world"
  shows "\<exists>tr errs.
      out (snd (PullImage E hnd ref w)) = out w @ tr
    \<and> filter (\<lambda>e. \<not> is_Log e) tr = attempts ref [0, 1, 2, 6] errs
    \<and> 1 \<le> length errs \<and> length errs \<le> 4
    \<and> (\<forall>e \<in> set (butlast errs). e \<noteq> None)
    \<and> (fst (PullImage E hnd ref w) = None \<longleftrightarrow> last errs = None)
    \<and> (fst (PullImage E hnd ref w) \<noteq> None \<longrightarrow>
          length errs = 4
        \<and> fst (PullImage E hnd ref w)
            = Some (Errorf (''failed to download '' @ ref @ '' 4 times, giving up.'')))
    \<and> sum_list (map sleep_seconds tr) = sum_list (take (length errs) [0, 1, 2, 6])
    \<and> (length errs = 4 \<longrightarrow> sum_list (map sleep_seconds tr) = 9)"
proof -
  obtain tr errs where l:
    "out (snd (PullImage_loop E hnd ref 0 [0, 1, 2, 6] w)) = out w @ tr"
    "filter (\<lambda>e. \<not> is_Log e) tr = attempts ref [0, 1, 2, 6] errs"
    "length errs \<le> length [0::nat, 1, 2, 6]"
    "[0::nat, 1, 2, 6] \<noteq> [] \<longrightarrow> errs \<noteq> []"
    "\<forall>e \<in> set (butlast errs). e \<noteq> None"
    "fst (PullImage_loop E hnd ref 0 [0, 1, 2, 6] w) \<longleftrightarrow> errs \<noteq> [] \<and> last errs = None"
    "\<not> fst (PullImage_loop E hnd ref 0 [0, 1, 2, 6] w) \<longrightarrow> length errs = length [0::nat, 1, 2, 6]"
    using PullImage_loop_trace [of E hnd ref 0 "[0, 1, 2, 6]" w] by blast
  have ne: "errs \<noteq> []" using l(4) by simp
  have res: "fst (PullImage E hnd ref w) =
               (if fst (PullImage_loop E hnd ref 0 [0, 1, 2, 6] w) then None
                else Some (Errorf (''failed to download '' @ ref @ '' 4 times, giving up.'')))"
    and wres: "snd (PullImage E hnd ref w) = snd (PullImage_loop E hnd ref 0 [0, 1, 2, 6] w)"
    by (simp_all add: PullImage_def Let_def split_def decimal_4 del: PullImage_loop.simps)
  have total: "sum_list (map sleep_seconds tr) = sum_list (take (length errs) [0, 1, 2, 6])"
    using sleep_seconds_filter [of tr, unfolded l(2)]
          sleep_seconds_attempts [of ref "[0, 1, 2, 6]" errs]
    by (rule trans [OF sym])
  have c1: "out (snd (PullImage E hnd ref w)) = out w @ tr" by (simp only: wres l(1))
  have c3: "1 \<le> length errs" using ne by (cases errs) simp_all
  have c4: "length errs \<le> 4" using l(3) by simp
  have c5: "fst (PullImage E hnd ref w) = None \<longleftrightarrow> last errs = None"
    using l(6) ne by (simp add: res)
  have c6: "fst (PullImage E hnd ref w) \<noteq> None \<longrightarrow>
          length errs = 4
        \<and> fst (PullImage E hnd ref w)
            = Some (Errorf (''failed to download '' @ ref @ '' 4 times, giving up.''))"
    using l(7) by (simp add: res)
  have c8: "length errs = 4 \<longrightarrow> sum_list (map sleep_seconds tr) = 9"
    using total by simp
  show ?thesis
    by (intro exI conjI) (rule c1 l(2) c3 c4 l(5) c5 c6 total c8)+
qed

theorem PullImage_four_attempts_witness:
  "fst (PullImage env0 hnd0 ''registry'' w0) = None
   \<and> filter (\<lambda>e. \<not> is_Log e) (out (snd (PullImage env0 hnd0 ''registry'' w0)))
       = [SleepSeconds 0, Call ''PullImage'' [''registry''] (Some (ErrorOccurred ''timeout'')),
          SleepSeconds 1, Call ''PullImage'' [''registry''] (Some (ErrorOccurred ''timeout'')),
          SleepSeconds 2, Call ''PullImage'' [''registry''] (Some (ErrorOccurred ''timeout'')),
          SleepSeconds 6, Call ''PullImage'' [''registry''] None]
   \<and> fst (PullImage env_pullfail hnd0 ''registry'' w0)
       = Some (Errorf ''failed to download registry 4 times, giving up.'')
   \<and> ext (snd (PullImage env_pullfail hnd0 ''registry'' w0)) = 4
   \<and> sum_list (map sleep_seconds (out (snd (PullImage env_pullfail hnd0 ''registry'' w0)))) = 9"
proof -
  have run:
    "fst (PullImage env0 hnd0 ''registry'' w0) = None
     \<and> filter (\<lambda>e. \<not> is_Log e) (out (snd (PullImage env0 hnd0 ''registry'' w0)))
         = [SleepSeconds 0, Call ''PullImage'' [''registry''] (Some (ErrorOccurred ''timeout'')),
            SleepSeconds 1, Call ''PullImage'' [''registry''] (Some (ErrorOccurred ''timeout'')),
            SleepSeconds 2, Call ''PullImage'' [''registry''] (Some (ErrorOccurred ''timeout'')),
            SleepSeconds 6, Call ''PullImage'' [''registry''] None]
     \<and> fst (PullImage env_pullfail hnd0 ''registry'' w0)
         = Some (Errorf ''failed to download registry 4 times, giving up.'')
     \<and> ext (snd (PullImage env_pullfail hnd0 ''registry'' w0)) = 4"
    by (simp add: PullImage_def call1_def emit_def Let_def split_def env0_def env_pullfail_def
          hnd0_def w0_def decimal_4)
  obtain tr :: "(nat, unit) effect list" and errs :: "unit err list" where t:
    "out (snd (PullImage env_pullfail hnd0 ''registry'' w0)) = out w0 @ tr"
    "fst (PullImage env_pullfail hnd0 ''registry'' w0) \<noteq> None \<longrightarrow> length errs = 4"
    "length errs = 4 \<longrightarrow> sum_list (map sleep_seconds tr) = 9"
    using PullImage_four_attempts [of env_pullfail hnd0 "''registry''" w0] by blast
  have failed: "fst (PullImage env_pullfail hnd0 ''registry'' w0) \<noteq> None"
    using run by simp
  have empty: "out w0 = ([] :: (nat, unit) effect list)" by (simp add: w0_def)
  have total: "sum_list (map sleep_seconds (out (snd (PullImage env_pullfail hnd0 ''registry'' w0)))) = 9"
    using t failed by (simp add: empty)
  show ?thesis using run total by simp
qed

subsection \<open>Terminal\<close>

lemma activity_result_frame:
  "tty (snd (activity_result E hnd container args file attached a w)) = tty w
   \<and> (\<exists>tr. out (snd (activity_result E hnd container args file attached a w)) = out w @ tr
           \<and> (\<forall>e \<in> set tr. is_Call e))"
proof (cases a)
  case CopyToTerminal
  then show ?thesis by (simp add: split_def Let_def)
next
  case CopyToSocket
  then show ?thesis by (simp add: split_def Let_def)
next
  case ExecCall
  then show ?thesis by (simp add: call0_def emit_def split_def Let_def)
qed

lemma Terminal_stream_frame:
  "tty (snd (Terminal_stream E hnd container args file attached sch errChan w)) = tty w
   \<and> (\<exists>tr. out (snd (Terminal_stream E hnd container args file attached sch errChan w)) = out w @ tr
           \<and> (\<forall>e \<in> set tr. is_Call e))"
proof (induction sch arbitrary: errChan w)
  case Nil
  show ?case by simp
next
  case (Cons ev rest)
  show ?case
  proof (cases ev)
    case Interrupt
    then show ?thesis using Cons.IH by simp
  next
    case Receive
    then show ?thesis using Cons.IH by (simp split: list.split)
  next
    case (Done a)
    define r where "r = activity_result E hnd container args file attached a w"
    obtain tr1 where a1: "tty (snd r) = tty w" "out (snd r) = out w @ tr1" "\<forall>e \<in> set tr1. is_Call e"
      unfolding r_def using activity_result_frame by blast
    show ?thesis
    proof (cases "a \<in> set (sent errChan)")
      case True
      then show ?thesis using Done Cons.IH by simp
    next
      case False
      note notsent = False
      show ?thesis
      proof (cases "closed errChan \<or> receiving errChan")
        case True
        have "snd (Terminal_stream E hnd container args file attached (ev # rest) errChan w) = snd r"
          using True notsent Done by (auto simp add: r_def split_def Let_def)
        then show ?thesis using a1 by auto
      next
        case False
        define c' where "c' = errChan\<lparr>sendq := sendq errChan @ [fst r], sent := a # sent errChan\<rparr>"
        have eq: "Terminal_stream E hnd container args file attached (ev # rest) errChan w
                = Terminal_stream E hnd container args file attached rest c' (snd r)"
          using False notsent Done by (simp add: r_def c'_def split_def Let_def)
        obtain tr2 where a2:
          "tty (snd (Terminal_stream E hnd container args file attached rest c' (snd r))) = tty (snd r)"
          "out (snd (Terminal_stream E hnd container args file attached rest c' (snd r))) = out (snd r) @ tr2"
          "\<forall>e \<in> set tr2. is_Call e"
          using Cons.IH [of c' "snd r"] by blast
        have "\<forall>e \<in> set (tr1 @ tr2). is_Call e" using a1(3) a2(3) by auto
        then show ?thesis unfolding eq using a1 a2 by (intro conjI exI [of _ "tr1 @ tr2"]) simp_all
      qed
    qed
  qed
qed


lemma Terminal_prepare_steps:
  "Terminal_prepare E hnd container file w =
     (let A = Attach_call E hnd container w;
          G = GetAttachSockets_call E hnd container w;
          F = OpenFile_call E hnd container w;
          c1 = Call ''Attach'' [container] (fst A);
          c2 = Call ''GetAttachSockets'' [container] (snd (fst G));
          c3 = Call ''os.OpenFile'' [Io_socket (fst (fst G))] (snd (fst F))
      in if fst A \<noteq> None then (Inl (fst A), w\<lparr>ext := snd A, out := out w @ [c1]\<rparr>)
         else if snd (fst G) \<noteq> None
           then (Inl (snd (fst G)), w\<lparr>ext := snd G, out := out w @ [c1, c2]\<rparr>)
         else if snd (fst F) \<noteq> None
           then (Inl (snd (fst F)), w\<lparr>ext := snd F, out := out w @ [c1, c2, c3]\<rparr>)
         else (case MakeRaw E file (tty w file) of
                 Inl e \<Rightarrow> (Inl (Some e),
                    w\<lparr>ext := snd F, out := out w @ [c1, c2, c3, Closed (File (fst (fst F)))]\<rparr>)
               | Inr raw \<Rightarrow> (Inr (fst (fst F), tty w file),
                    w\<lparr>ext := snd F, out := out w @ [c1, c2, c3, MadeRaw file],
                      tty := (tty w)(file := raw)\<rparr>)))"
  by (simp add: Terminal_prepare_def call0_def call1_def emit_def Let_def split_def
        Attach_call_def GetAttachSockets_call_def OpenFile_call_def split: sum.split)

lemma Terminal_Inl:
  "Terminal_prepare E hnd container file w = (Inl err, w1)
   \<Longrightarrow> Terminal E hnd container args file sch w = (Returned err, w1)"
  by (simp add: Terminal_def)

lemma Terminal_attach_fails:
  assumes "fst (Attach_call E hnd container w) \<noteq> None"
  shows "fst (Terminal E hnd container args file sch w) = Returned (fst (Attach_call E hnd container w))"
    and "out (snd (Terminal E hnd container args file sch w))
           = out w @ [Call ''Attach'' [container] (fst (Attach_call E hnd container w))]"
        (is "_ = _ @ ?tr")
    and "tty (snd (Terminal E hnd container args file sch w)) = tty w"
proof -
  define w1 where "w1 = w\<lparr>ext := snd (Attach_call E hnd container w),
      out := out w @ [Call ''Attach'' [container] (fst (Attach_call E hnd container w))]\<rparr>"
  have "Terminal_prepare E hnd container file w = (Inl (fst (Attach_call E hnd container w)), w1)"
    using assms by (simp add: Terminal_prepare_steps Let_def w1_def)
  then have T: "Terminal E hnd container args file sch w = (Returned (fst (Attach_call E hnd container w)), w1)"
    by (rule Terminal_Inl)
  show "fst (Terminal E hnd container args file sch w) = Returned (fst (Attach_call E hnd container w))"
    by (simp add: T)
  show "tty (snd (Terminal E hnd container args file sch w)) = tty w"
    by (simp add: T w1_def)
  show "out (snd (Terminal E hnd container args file sch w)) = out w @ ?tr"
    using assms by (simp add: T w1_def)
qed

lemma Terminal_sockets_fails:
  assumes "fst (Attach_call E hnd container w) = None"
      and "snd (fst (GetAttachSockets_call E hnd container w)) \<noteq> None"
  shows "fst (Terminal E hnd container args file sch w)
           = Returned (snd (fst (GetAttachSockets_call E hnd container w)))"
    and "out (snd (Terminal E hnd container args file sch w))
           = out w @ [Call ''Attach'' [container] None,
                Call ''GetAttachSockets'' [container] (snd (fst (GetAttachSockets_call E hnd container w)))]"
        (is "_ = _ @ ?tr")
    and "tty (snd (Terminal E hnd container args file sch w)) = tty w"
proof -
  define w1 where "w1 = w\<lparr>ext := snd (GetAttachSockets_call E hnd container w),
      out := out w @ [Call ''Attach'' [container] (fst (Attach_call E hnd container w)),
         Call ''GetAttachSockets'' [container] (snd (fst (GetAttachSockets_call E hnd container w)))]\<rparr>"
  have "Terminal_prepare E hnd container file w
          = (Inl (snd (fst (GetAttachSockets_call E hnd container w))), w1)"
    using assms by (simp add: Terminal_prepare_steps Let_def w1_def)
  then have T: "Terminal E hnd container args file sch w
                  = (Returned (snd (fst (GetAttachSockets_call E hnd container w))), w1)"
    by (rule Terminal_Inl)
  show "fst (Terminal E hnd container args file sch w)
           = Returned (snd (fst (GetAttachSockets_call E hnd container w)))"
    by (simp add: T)
  show "tty (snd (Terminal E hnd container args file sch w)) = tty w"
    by (simp add: T w1_def)
  show "out (snd (Terminal E hnd container args file sch w)) = out w @ ?tr"
    using assms by (simp add: T w1_def)
qed

lemma Terminal_open_fails:
  assumes "fst (Attach_call E hnd container w) = None"
      and "snd (fst (GetAttachSockets_call E hnd container w)) = None"
      and "snd (fst (OpenFile_call E hnd container w)) \<noteq> None"
  shows "fst (Terminal E hnd container args file sch w)
           = Returned (snd (fst (OpenFile_call E hnd container w)))"
    and "out (snd (Terminal E hnd container args file sch w))
           = out w @ [Call ''Attach'' [container] None,
                Call ''GetAttachSockets'' [container] None,
                Call ''os.OpenFile'' [Io_socket (fst (fst (GetAttachSockets_call E hnd container w)))]
                  (snd (fst (OpenFile_call E hnd container w)))]"
        (is "_ = _ @ ?tr")
    and "tty (snd (Terminal E hnd container args file sch w)) = tty w"
proof -
  define w1 where "w1 = w\<lparr>ext := snd (OpenFile_call E hnd container w),
      out := out w @ [Call ''Attach'' [container] (fst (Attach_call E hnd container w)),
         Call ''GetAttachSockets'' [container] (snd (fst (GetAttachSockets_call E hnd container w))),
         Call ''os.OpenFile'' [Io_socket (fst (fst (GetAttachSockets_call E hnd container w)))]
           (snd (fst (OpenFile_call E hnd container w)))]\<rparr>"
  have "Terminal_prepare E hnd container file w
          = (Inl (snd (fst (OpenFile_call E hnd container w))), w1)"
    using assms by (simp add: Terminal_prepare_steps Let_def w1_def)
  then have T: "Terminal E hnd container args file sch w
                  = (Returned (snd (fst (OpenFile_call E hnd container w))), w1)"
    by (rule Terminal_Inl)
  show "fst (Terminal E hnd container args file sch w)
           = Returned (snd (fst (OpenFile_call E hnd container w)))"
    by (simp add: T)
  show "tty (snd (Terminal E hnd container args file sch w)) = tty w"
    by (simp add: T w1_def)
  show "out (snd (Terminal E hnd container args file sch w)) = out w @ ?tr"
    using assms by (simp add: T w1_def)
qed

lemma Terminal_prepare_Inr:
  fixes E :: "('ctx, 'conn, 'e, 'v) env" and w :: "('conn, 'e, 'v) world"
  assumes "Terminal_prepare E hnd container file w = (Inr (attached, state), w4)"
  shows "state = tty w file"
    and "\<exists>raw. MakeRaw E file (tty w file) = Inr raw \<and> tty w4 = (tty w)(file := raw)"
    and "\<exists>tr. out w4 = out w @ tr @ [MadeRaw file] \<and> list_all is_Call tr"
proof -
  define c1 :: "('conn, 'v) effect" where "c1 = Call ''Attach'' [container] (fst (Attach_call E hnd container w))"
  define c2 :: "('conn, 'v) effect" where "c2 = Call ''GetAttachSockets'' [container] (snd (fst (GetAttachSockets_call E hnd container w)))"
  define c3 :: "('conn, 'v) effect" where "c3 = Call ''os.OpenFile'' [Io_socket (fst (fst (GetAttachSockets_call E hnd container w)))]
           (snd (fst (OpenFile_call E hnd container w)))"
  have all: "state = tty w file
     \<and> (\<exists>raw. MakeRaw E file (tty w file) = Inr raw \<and> tty w4 = (tty w)(file := raw))
     \<and> out w4 = out w @ [c1, c2, c3] @ [MadeRaw file]"
    using assms unfolding c1_def c2_def c3_def
    by (auto simp add: Terminal_prepare_steps Let_def split: if_splits sum.splits)
  show "state = tty w file" using all by simp
  show "\<exists>raw. MakeRaw E file (tty w file) = Inr raw \<and> tty w4 = (tty w)(file := raw)" using all by simp
  have "list_all is_Call [c1, c2, c3]" by (simp add: c1_def c2_def c3_def)
  then show "\<exists>tr. out w4 = out w @ tr @ [MadeRaw file] \<and> list_all is_Call tr"
    using all by blast
qed

lemma Terminal_Returned:
  assumes P: "Terminal_prepare E hnd container file w = (Inr (attached, state), w4)"
      and T: "Terminal E hnd container args file sch w = (Returned r, w')"
  shows "\<exists>tr. out w' = out w4 @ tr @ [Restored file state, Closed (File attached)] \<and> list_all is_Call tr"
    and "tty w' = tty w"
proof -
  define S where "S = Terminal_stream E hnd container args file attached sch make_chan w4"
  have TS: "Terminal E hnd container args file sch w =
        (case S of
             (Returned err, w5) \<Rightarrow>
               (Returned err,
                emit (Closed (File attached))
                  ((emit (Restored file state) w5)\<lparr>tty := (tty w5)(file := state)\<rparr>))
           | (Blocked, w5) \<Rightarrow> (Blocked, w5)
           | (Panicked, w5) \<Rightarrow> (Panicked, w5))"
    by (simp add: Terminal_def P S_def)
  obtain tr where fr: "tty (snd S) = tty w4" "out (snd S) = out w4 @ tr" "\<forall>e \<in> set tr. is_Call e"
    unfolding S_def using Terminal_stream_frame by blast
  have w': "w' = emit (Closed (File attached))
                  ((emit (Restored file state) (snd S))\<lparr>tty := (tty (snd S))(file := state)\<rparr>)"
    using T unfolding TS by (cases S; cases "fst S") (auto split: outcome.splits)
  have "out w' = out w4 @ tr @ [Restored file state, Closed (File attached)]"
    by (simp add: w' emit_def fr)
  moreover have "list_all is_Call tr" using fr(3) by (simp add: list_all_iff)
  ultimately show "\<exists>tr. out w' = out w4 @ tr @ [Restored file state, Closed (File attached)] \<and> list_all is_Call tr"
    by blast
  obtain raw where raw: "tty w4 = (tty w)(file := raw)" "state = tty w file"
    using Terminal_prepare_Inr(1,2) [OF P] by blast
  show "tty w' = tty w"
    by (simp add: w' emit_def fr raw)
qed


text \<open>
  Claim C2. When the attach call, the call for the attach sockets or the opening of the I/O
  socket fails, Terminal returns that error at once: the failing call is the last effect, and
  the terminal mode is as it was. Once raw mode is established (the preparation ends with the
  open socket and the saved state, which is the mode the terminal had), every return of
  Terminal, whatever the schedule and whatever value it returns, is preceded by the restoring
  of the saved mode and then the closing of the I/O socket, as the last two effects, with only
  calls between raw mode and them; the terminal is back in the mode it had.
\<close>

theorem Terminal_restores_and_closes:
  "(fst (Attach_call E hnd container w) \<noteq> None \<longrightarrow>
        fst (Terminal E hnd container args file sch w) = Returned (fst (Attach_call E hnd container w))
      \<and> out (snd (Terminal E hnd container args file sch w))
          = out w @ [Call ''Attach'' [container] (fst (Attach_call E hnd container w))]
      \<and> tty (snd (Terminal E hnd container args file sch w)) = tty w)
   \<and> (fst (Attach_call E hnd container w) = None
      \<and> snd (fst (GetAttachSockets_call E hnd container w)) \<noteq> None \<longrightarrow>
        fst (Terminal E hnd container args file sch w)
          = Returned (snd (fst (GetAttachSockets_call E hnd container w)))
      \<and> out (snd (Terminal E hnd container args file sch w))
          = out w @ [Call ''Attach'' [container] None,
               Call ''GetAttachSockets'' [container] (snd (fst (GetAttachSockets_call E hnd container w)))]
      \<and> tty (snd (Terminal E hnd container args file sch w)) = tty w)
   \<and> (fst (Attach_call E hnd container w) = None
      \<and> snd (fst (GetAttachSockets_call E hnd container w)) = None
      \<and> snd (fst (OpenFile_call E hnd container w)) \<noteq> None \<longrightarrow>
        fst (Terminal E hnd container args file sch w)
          = Returned (snd (fst (OpenFile_call E hnd container w)))
      \<and> out (snd (Terminal E hnd container args file sch w))
          = out w @ [Call ''Attach'' [container] None,
               Call ''GetAttachSockets'' [container] None,
               Call ''os.OpenFile'' [Io_socket (fst (fst (GetAttachSockets_call E hnd container w)))]
                 (snd (fst (OpenFile_call E hnd container w)))]
      \<and> tty (snd (Terminal E hnd container args file sch w)) = tty w)
   \<and> (\<forall>attached state w4 r w'.
        Terminal_prepare E hnd container file w = (Inr (attached, state), w4)
      \<and> Terminal E hnd container args file sch w = (Returned r, w') \<longrightarrow>
        state = tty w file
      \<and> (\<exists>raw. MakeRaw E file (tty w file) = Inr raw \<and> tty w4 = (tty w)(file := raw))
      \<and> (\<exists>tr. out w4 = out w @ tr @ [MadeRaw file] \<and> list_all is_Call tr)
      \<and> (\<exists>tr. out w' = out w4 @ tr @ [Restored file state, Closed (File attached)]
              \<and> list_all is_Call tr)
      \<and> tty w' = tty w)"
proof (intro conjI impI allI)
  assume "fst (Attach_call E hnd container w) \<noteq> None"
  then show "fst (Terminal E hnd container args file sch w) = Returned (fst (Attach_call E hnd container w))"
    and "out (snd (Terminal E hnd container args file sch w))
          = out w @ [Call ''Attach'' [container] (fst (Attach_call E hnd container w))]"
    and "tty (snd (Terminal E hnd container args file sch w)) = tty w"
    by (rule Terminal_attach_fails)+
next
  assume a: "fst (Attach_call E hnd container w) = None
      \<and> snd (fst (GetAttachSockets_call E hnd container w)) \<noteq> None"
  show "fst (Terminal E hnd container args file sch w)
          = Returned (snd (fst (GetAttachSockets_call E hnd container w)))"
    using a Terminal_sockets_fails(1) by blast
  show "out (snd (Terminal E hnd container args file sch w))
          = out w @ [Call ''Attach'' [container] None,
               Call ''GetAttachSockets'' [container] (snd (fst (GetAttachSockets_call E hnd container w)))]"
    using a Terminal_sockets_fails(2) by blast
  show "tty (snd (Terminal E hnd container args file sch w)) = tty w"
    using a Terminal_sockets_fails(3) by blast
next
  assume a: "fst (Attach_call E hnd container w) = None
      \<and> snd (fst (GetAttachSockets_call E hnd container w)) = None
      \<and> snd (fst (OpenFile_call E hnd container w)) \<noteq> None"
  show "fst (Terminal E hnd container args file sch w)
          = Returned (snd (fst (OpenFile_call E hnd container w)))"
    using a Terminal_open_fails(1) by blast
  show "out (snd (Terminal E hnd container args file sch w))
          = out w @ [Call ''Attach'' [container] None,
               Call ''GetAttachSockets'' [container] None,
               Call ''os.OpenFile'' [Io_socket (fst (fst (GetAttachSockets_call E hnd container w)))]
                 (snd (fst (OpenFile_call E hnd container w)))]"
    using a Terminal_open_fails(2) by blast
  show "tty (snd (Terminal E hnd container args file sch w)) = tty w"
    using a Terminal_open_fails(3) by blast
next
  fix attached state w4 r w'
  assume a: "Terminal_prepare E hnd container file w = (Inr (attached, state), w4)
      \<and> Terminal E hnd container args file sch w = (Returned r, w')"
  then have P: "Terminal_prepare E hnd container file w = (Inr (attached, state), w4)"
    and T: "Terminal E hnd container args file sch w = (Returned r, w')" by simp_all
  show "state = tty w file" by (rule Terminal_prepare_Inr(1) [OF P])
  show "\<exists>raw. MakeRaw E file (tty w file) = Inr raw \<and> tty w4 = (tty w)(file := raw)"
    by (rule Terminal_prepare_Inr(2) [OF P])
  show "\<exists>tr. out w4 = out w @ tr @ [MadeRaw file] \<and> list_all is_Call tr"
    by (rule Terminal_prepare_Inr(3) [OF P])
  show "\<exists>tr. out w' = out w4 @ tr @ [Restored file state, Closed (File attached)]
              \<and> list_all is_Call tr"
    by (rule Terminal_Returned(1) [OF P T])
  show "tty w' = tty w" by (rule Terminal_Returned(2) [OF P T])
qed

theorem Terminal_restores_and_closes_witness:
  "fst (Terminal env_attachfail hnd0 ''box'' [''sh''] 0 [Receive, Done ExecCall] w0)
     = Returned (Some (ContainerNotFound ''box''))
   \<and> out (snd (Terminal env_attachfail hnd0 ''box'' [''sh''] 0 [Receive, Done ExecCall] w0))
     = [Call ''Attach'' [''box''] (Some (ContainerNotFound ''box''))]
   \<and> fst (Terminal env0 hnd0 ''box'' [''sh''] 0 [Receive, Done ExecCall] w0) = Returned None
   \<and> out (snd (Terminal env0 hnd0 ''box'' [''sh''] 0 [Receive, Done ExecCall] w0))
     = [Call ''Attach'' [''box''] None, Call ''GetAttachSockets'' [''box''] None,
        Call ''os.OpenFile'' [''/run/attach/io''] None, MadeRaw 0,
        Call ''ExecContainer'' [''box''] None, Restored 0 0, Closed (File 3)]
   \<and> tty (snd (Terminal env0 hnd0 ''box'' [''sh''] 0 [Receive, Done ExecCall] w0)) = tty w0"
proof -
  have fails: "fst (Attach_call env_attachfail hnd0 ''box'' w0) = Some (ContainerNotFound ''box'')"
    by (simp add: Attach_call_def env_attachfail_def env0_def)
  have empty: "out w0 = ([] :: (nat, unit) effect list)" by (simp add: w0_def)
  have a: "fst (Terminal env_attachfail hnd0 ''box'' [''sh''] 0 [Receive, Done ExecCall] w0)
             = Returned (Some (ContainerNotFound ''box''))"
    and b: "out (snd (Terminal env_attachfail hnd0 ''box'' [''sh''] 0 [Receive, Done ExecCall] w0))
             = [Call ''Attach'' [''box''] (Some (ContainerNotFound ''box''))]"
    using Terminal_restores_and_closes
            [of env_attachfail hnd0 "''box''" w0 "[''sh'']" 0 "[Receive, Done ExecCall]"]
    by (simp_all add: fails empty)
  let ?w4 = "\<lparr>ext = 0, tty = (\<lambda>fd. 0)(0 := Suc 0),
                 out = [Call ''Attach'' [''box''] None, Call ''GetAttachSockets'' [''box''] None,
                        Call ''os.OpenFile'' [''/run/attach/io''] None, MadeRaw 0]\<rparr>
               :: (nat, nat, unit) world"
  have prep: "Terminal_prepare env0 hnd0 ''box'' 0 w0 = (Inr (3, 0), ?w4)"
    by (simp add: Terminal_prepare_def call0_def call1_def emit_def Let_def split_def
          env0_def hnd0_def w0_def)
  have stream: "Terminal_stream env0 hnd0 ''box'' [''sh''] 0 3 [Receive, Done ExecCall] make_chan ?w4
                  = (Returned None, ?w4\<lparr>out := out ?w4 @ [Call ''ExecContainer'' [''box''] None]\<rparr>)"
    by (simp add: make_chan_def call0_def emit_def Let_def split_def env0_def hnd0_def)
  have run: "fst (Terminal env0 hnd0 ''box'' [''sh''] 0 [Receive, Done ExecCall] w0) = Returned None"
    and tr: "out (snd (Terminal env0 hnd0 ''box'' [''sh''] 0 [Receive, Done ExecCall] w0))
     = [Call ''Attach'' [''box''] None, Call ''GetAttachSockets'' [''box''] None,
        Call ''os.OpenFile'' [''/run/attach/io''] None, MadeRaw 0,
        Call ''ExecContainer'' [''box''] None, Restored 0 0, Closed (File 3)]"
    by (simp_all only: Terminal_def prep prod.case sum.case stream outcome.case)
       (simp_all add: emit_def)
  obtain w' where T: "Terminal env0 hnd0 ''box'' [''sh''] 0 [Receive, Done ExecCall] w0 = (Returned None, w')"
    using run by (cases "Terminal env0 hnd0 ''box'' [''sh''] 0 [Receive, Done ExecCall] w0") simp
  have "tty w' = tty w0"
    using Terminal_restores_and_closes
            [of env0 hnd0 "''box''" w0 "[''sh'']" 0 "[Receive, Done ExecCall]"]
          prep T by blast
  then have c: "tty (snd (Terminal env0 hnd0 ''box'' [''sh''] 0 [Receive, Done ExecCall] w0)) = tty w0"
    by (simp add: T)
  show ?thesis using a b run tr c by simp
qed
















subsection \<open>The connection\<close>

lemma out_emit: "out (emit e w) = out w @ [e]"
  by (simp add: emit_def)

lemma cc_call0:
  "filter closes_connection (out (snd (call0 m as f w))) = filter closes_connection (out w)"
  by (simp add: call0_def emit_def split_def Let_def)

lemma cc_call1:
  "filter closes_connection (out (snd (call1 m as f w))) = filter closes_connection (out w)"
  by (simp add: call1_def emit_def split_def Let_def)

lemma cc_calls:
  "\<forall>e \<in> set tr. is_Call e \<Longrightarrow> filter closes_connection tr = []"
proof (induction tr)
  case Nil
  show ?case by simp
next
  case (Cons e tr)
  then show ?case by (cases e) simp_all
qed

lemma cc_GetPrefixedContainers_loop:
  "filter closes_connection (out (snd (GetPrefixedContainers_loop p cs ret w)))
     = filter closes_connection (out w)"
  by (induction cs arbitrary: ret w) (simp_all add: out_emit)

lemma cc_GetPrefixedVolumes_loop:
  "filter closes_connection (out (snd (GetPrefixedVolumes_loop p vs ret w)))
     = filter closes_connection (out w)"
  by (induction vs arbitrary: ret w) (simp_all add: out_emit)

lemma cc_RemoveVolumes_loop:
  "filter closes_connection (out (snd (RemoveVolumes_loop vs names w)))
     = filter closes_connection (out w)"
  by (induction vs arbitrary: names w) (simp_all add: out_emit)

lemma cc_PullImage_loop:
  "filter closes_connection (out (snd (PullImage_loop E hnd ref idx tries w)))
     = filter closes_connection (out w)"
proof (induction tries arbitrary: idx w)
  case Nil
  show ?case by simp
next
  case (Cons i rest)
  show ?case
    by (simp only: PullImage_loop_Cons Let_def) (simp add: Cons.IH del: PullImage_loop.simps)
qed

lemma cc_GetPrefixedContainers:
  "filter closes_connection (out (snd (GetPrefixedContainers E hnd p w)))
     = filter closes_connection (out w)"
  by (simp add: GetPrefixedContainers_def Let_def split_def cc_call1 out_emit
        cc_GetPrefixedContainers_loop)

lemma cc_GetPrefixedVolumes:
  "filter closes_connection (out (snd (GetPrefixedVolumes E hnd p w)))
     = filter closes_connection (out w)"
  by (simp add: GetPrefixedVolumes_def Let_def split_def cc_call1 out_emit
        cc_GetPrefixedVolumes_loop)

lemma cc_FindPrefixedContainer:
  "filter closes_connection (out (snd (FindPrefixedContainer E hnd p w)))
     = filter closes_connection (out w)"
  by (simp add: FindPrefixedContainer_def Let_def split_def cc_GetPrefixedContainers)

lemma cc_RemoveVolumes:
  "filter closes_connection (out (snd (RemoveVolumes E hnd vs w)))
     = filter closes_connection (out w)"
  by (simp add: RemoveVolumes_def Let_def split_def cc_call0 cc_RemoveVolumes_loop)

lemma cc_RemoveContainer:
  "filter closes_connection (out (snd (RemoveContainer E hnd cont force rv w)))
     = filter closes_connection (out w)"
  by (simp add: RemoveContainer_def Let_def cc_call1 out_emit)

lemma cc_PullImage:
  "filter closes_connection (out (snd (PullImage E hnd ref w)))
     = filter closes_connection (out w)"
  by (simp add: PullImage_def Let_def split_def cc_PullImage_loop del: PullImage_loop.simps)

lemma cc_Terminal_prepare:
  "filter closes_connection (out (snd (Terminal_prepare E hnd container file w)))
     = filter closes_connection (out w)"
  by (simp add: Terminal_prepare_steps Let_def split: sum.split)

lemma cc_Terminal_stream:
  "filter closes_connection (out (snd (Terminal_stream E hnd container args file attached sch errChan w)))
     = filter closes_connection (out w)"
proof -
  obtain tr where "out (snd (Terminal_stream E hnd container args file attached sch errChan w)) = out w @ tr"
    "\<forall>e \<in> set tr. is_Call e"
    using Terminal_stream_frame by blast
  then show ?thesis by (simp add: cc_calls)
qed

lemma cc_Terminal:
  "filter closes_connection (out (snd (Terminal E hnd container args file sch w)))
     = filter closes_connection (out w)"
proof (cases "Terminal_prepare E hnd container file w")
  case (Pair res w1)
  have "filter closes_connection (out (snd (Terminal_prepare E hnd container file w)))
          = filter closes_connection (out w)"
    by (rule cc_Terminal_prepare)
  then have p: "filter closes_connection (out w1) = filter closes_connection (out w)"
    using Pair by simp
  show ?thesis
  proof (cases res)
    case (Inl err)
    then show ?thesis using Pair p by (simp add: Terminal_def)
  next
    case (Inr as)
    obtain attached state where as: "as = (attached, state)" by (cases as)
    obtain oc w5 where S: "Terminal_stream E hnd container args file attached sch make_chan w1 = (oc, w5)"
      by (cases "Terminal_stream E hnd container args file attached sch make_chan w1")
    have "filter closes_connection
            (out (snd (Terminal_stream E hnd container args file attached sch make_chan w1)))
          = filter closes_connection (out w1)"
      by (rule cc_Terminal_stream)
    then have s: "filter closes_connection (out w5) = filter closes_connection (out w1)"
      using S by simp
    show ?thesis using Pair Inr as S s p by (cases oc) (simp_all add: Terminal_def out_emit emit_def)
  qed
qed

lemma cc_perform:
  "filter closes_connection (out (perform E hnd op w)) = filter closes_connection (out w)"
proof (cases op)
  case (Op_Terminal container args fd sch)
  then show ?thesis by (simp add: cc_Terminal)
next
  case (Op_Exec container args)
  then show ?thesis by (simp add: Exec_def cc_call0)
next
  case (Op_GetPrefixedContainers p)
  then show ?thesis by (simp add: cc_GetPrefixedContainers)
next
  case (Op_GetPrefixedVolumes p)
  then show ?thesis by (simp add: cc_GetPrefixedVolumes)
next
  case (Op_FindPrefixedContainer p)
  then show ?thesis by (simp add: cc_FindPrefixedContainer)
next
  case (Op_RemoveVolumes vs)
  then show ?thesis by (simp add: cc_RemoveVolumes)
next
  case (Op_RemoveContainer cont force rv)
  then show ?thesis by (simp add: cc_RemoveContainer)
next
  case (Op_CreateNamedVolume name)
  then show ?thesis by (simp add: CreateNamedVolume_def cc_call1)
next
  case (Op_CreateContainer conf)
  then show ?thesis by (simp add: CreateContainer_def cc_call1)
next
  case (Op_StopContainer name timeout)
  then show ?thesis by (simp add: StopContainer_def cc_call1)
next
  case (Op_StartContainer contID)
  then show ?thesis by (simp add: StartContainer_def cc_call1)
next
  case (Op_WaitContainer name interval)
  then show ?thesis by (simp add: WaitContainer_def cc_call1)
next
  case (Op_PullImage ref)
  then show ?thesis by (simp add: cc_PullImage)
qed

lemma cc_member:
  "Closed (Connection c) \<in> set tr \<longleftrightarrow> Closed (Connection c) \<in> set (filter closes_connection tr)"
  by simp

text \<open>
  Claim C9. No method of the handle closes the handle's connection. After any sequence of
  method calls on a handle (queries, removals, creations, stop, start, wait, pull, exec and
  Terminal, under any schedule), the caller's handle, and so its connection field, is what it
  was, and the closes of a connection in the trace are those that were there before: when no
  connection was closed before, none is closed after. The only close the package makes is that
  of the I/O socket file inside Terminal.
\<close>

theorem connection_never_closed:
  "fst (invoke_all E ops (hnd, w)) = hnd
   \<and> conn (fst (invoke_all E ops (hnd, w))) = conn hnd
   \<and> filter closes_connection (out (snd (invoke_all E ops (hnd, w))))
       = filter closes_connection (out w)
   \<and> ((\<forall>c. Closed (Connection c) \<notin> set (out w)) \<longrightarrow>
        (\<forall>c. Closed (Connection c) \<notin> set (out (snd (invoke_all E ops (hnd, w))))))"
proof -
  have keeps: "fst (invoke_all E ops (hnd, w)) = hnd
     \<and> filter closes_connection (out (snd (invoke_all E ops (hnd, w))))
         = filter closes_connection (out w)"
  proof (induction ops arbitrary: w)
    case Nil
    show ?case by (simp add: invoke_all_def)
  next
    case (Cons op ops)
    have "invoke_all E (op # ops) (hnd, w) = invoke_all E ops (hnd, perform E hnd op w)"
      by (simp add: invoke_all_def)
    then show ?case using Cons.IH [of "perform E hnd op w"] by (simp add: cc_perform)
  qed
  have none: "(\<forall>c. Closed (Connection c) \<notin> set (out w)) \<longrightarrow>
        (\<forall>c. Closed (Connection c) \<notin> set (out (snd (invoke_all E ops (hnd, w)))))"
  proof (intro impI allI)
    fix c
    assume a: "\<forall>c. Closed (Connection c) \<notin> set (out w)"
    then have "Closed (Connection c) \<notin> set (filter closes_connection (out w))" by simp
    then have "Closed (Connection c)
                 \<notin> set (filter closes_connection (out (snd (invoke_all E ops (hnd, w)))))"
      using keeps by simp
    then show "Closed (Connection c) \<notin> set (out (snd (invoke_all E ops (hnd, w))))"
      by (simp only: cc_member [symmetric] not_False_eq_True)
  qed
  show ?thesis using keeps none by simp
qed

theorem connection_never_closed_witness:
  "conn (fst (invoke_all env0
       [Op_PullImage ''registry'', Op_Terminal ''box'' [''sh''] 0 [Receive, Done ExecCall],
        Op_StopContainer ''box'' 5] (hnd0, w0))) = Some 7
   \<and> (\<forall>c. Closed (Connection c) \<notin> set (out (snd (invoke_all env0
       [Op_PullImage ''registry'', Op_Terminal ''box'' [''sh''] 0 [Receive, Done ExecCall],
        Op_StopContainer ''box'' 5] (hnd0, w0)))))
   \<and> Closed (File 3) \<in> set (out (snd (invoke_all env0
       [Op_Terminal ''box'' [''sh''] 0 [Receive, Done ExecCall]] (hnd0, w0))))"
proof -
  have empty: "out w0 = ([] :: (nat, unit) effect list)" by (simp add: w0_def)
  have c7: "conn hnd0 = Some 7" by (simp add: hnd0_def)
  have a: "conn (fst (invoke_all env0
       [Op_PullImage ''registry'', Op_Terminal ''box'' [''sh''] 0 [Receive, Done ExecCall],
        Op_StopContainer ''box'' 5] (hnd0, w0))) = Some 7"
    and b: "\<forall>c. Closed (Connection c) \<notin> set (out (snd (invoke_all env0
       [Op_PullImage ''registry'', Op_Terminal ''box'' [''sh''] 0 [Receive, Done ExecCall],
        Op_StopContainer ''box'' 5] (hnd0, w0))))"
    using connection_never_closed [of env0
       "[Op_PullImage ''registry'', Op_Terminal ''box'' [''sh''] 0 [Receive, Done ExecCall],
        Op_StopContainer ''box'' 5]" hnd0 w0]
    by (simp_all only: empty c7 list.set empty_iff not_False_eq_True simp_thms)
  let ?w4 = "\<lparr>ext = 0, tty = (\<lambda>fd. 0)(0 := Suc 0),
                 out = [Call ''Attach'' [''box''] None, Call ''GetAttachSockets'' [''box''] None,
                        Call ''os.OpenFile'' [''/run/attach/io''] None, MadeRaw 0]\<rparr>
               :: (nat, nat, unit) world"
  have prep: "Terminal_prepare env0 hnd0 ''box'' 0 w0 = (Inr (3, 0), ?w4)"
    by (simp add: Terminal_prepare_def call0_def call1_def emit_def Let_def split_def
          env0_def hnd0_def w0_def)
  have stream: "Terminal_stream env0 hnd0 ''box'' [''sh''] 0 3 [Receive, Done ExecCall] make_chan ?w4
                  = (Returned None, ?w4\<lparr>out := out ?w4 @ [Call ''ExecContainer'' [''box''] None]\<rparr>)"
    by (simp add: make_chan_def call0_def emit_def Let_def split_def env0_def hnd0_def)
  have tr: "out (snd (Terminal env0 hnd0 ''box'' [''sh''] 0 [Receive, Done ExecCall] w0))
     = [Call ''Attach'' [''box''] None, Call ''GetAttachSockets'' [''box''] None,
        Call ''os.OpenFile'' [''/run/attach/io''] None, MadeRaw 0,
        Call ''ExecContainer'' [''box''] None, Restored 0 0, Closed (File 3)]"
    by (simp only: Terminal_def prep prod.case sum.case stream outcome.case)
       (simp add: emit_def)
  have inv: "snd (invoke_all env0 [Op_Terminal ''box'' [''sh''] 0 [Receive, Done ExecCall]] (hnd0, w0))
           = snd (Terminal env0 hnd0 ''box'' [''sh''] 0 [Receive, Done ExecCall] w0)"
    by (simp add: invoke_all_def)
  have c: "Closed (File 3) \<in> set (out (snd (invoke_all env0
       [Op_Terminal ''box'' [''sh''] 0 [Receive, Done ExecCall]] (hnd0, w0))))"
    by (simp only: inv tr) simp
  show ?thesis using a b c by (intro conjI)
qed

end
